theory Spec2Isabelle
  imports Main
begin

section \<open>JavaScript string primitives used by the handlers\<close>

text \<open>
  A JavaScript string is modelled as a \<^typ>\<open>string\<close>: one \<^typ>\<open>char\<close> per code unit, for
  code units below 256 (host names, paths and header values as CloudFront delivers them).
\<close>

text \<open>\<^verbatim>\<open>c.toLowerCase()\<close> on one code unit below 256: A to Z and the Latin-1 capitals
  (0xC0 to 0xDE, the multiplication sign 0xD7 apart) move up by 32.\<close>

definition toLowerCase_char :: "char \<Rightarrow> char" where
  "toLowerCase_char c =
     (let n = (of_char c :: nat) in
      if (65 \<le> n \<and> n \<le> 90) \<or> (192 \<le> n \<and> n \<le> 222 \<and> n \<noteq> 215)
      then char_of (n + 32) else c)"

definition toLowerCase :: "string \<Rightarrow> string" where
  "toLowerCase s = map toLowerCase_char s"

text \<open>\<^verbatim>\<open>s.startsWith(p)\<close>.\<close>

fun startsWith :: "string \<Rightarrow> string \<Rightarrow> bool" where
  "startsWith s [] = True"
| "startsWith [] (p # ps) = False"
| "startsWith (c # cs) (p # ps) = (c = p \<and> startsWith cs ps)"

text \<open>\<^verbatim>\<open>s.endsWith(p)\<close>.\<close>

definition endsWith :: "string \<Rightarrow> string \<Rightarrow> bool" where
  "endsWith s p = startsWith (rev s) (rev p)"

text \<open>\<^verbatim>\<open>s.includes(p)\<close>: \<open>p\<close> occurs in \<open>s\<close> at some position.\<close>

fun includes_str :: "string \<Rightarrow> string \<Rightarrow> bool" where
  "includes_str [] p = (p = [])"
| "includes_str (c # cs) p = (startsWith (c # cs) p \<or> includes_str cs p)"

text \<open>\<^verbatim>\<open>s.split(sep)\<close> for a separator of one character: the pieces between the
  separators, in order; a string without the separator is its own single piece.\<close>

fun split_str :: "char \<Rightarrow> string \<Rightarrow> string list" where
  "split_str sep [] = [[]]"
| "split_str sep (c # cs) =
     (if c = sep then [] # split_str sep cs
      else (case split_str sep cs of
              [] \<Rightarrow> [[c]]
            | piece # pieces \<Rightarrow> (c # piece) # pieces))"

text \<open>\<^verbatim>\<open>xs[i]\<close> on an array: \<open>None\<close> is JavaScript's \<^verbatim>\<open>undefined\<close>.\<close>

definition at_index :: "'a list \<Rightarrow> nat \<Rightarrow> 'a option" where
  "at_index xs i = (if i < length xs then Some (xs ! i) else None)"

text \<open>A value inside a template literal: \<^verbatim>\<open>undefined\<close> prints as the word.\<close>

definition template :: "string option \<Rightarrow> string" where
  "template v = (case v of None \<Rightarrow> ''undefined'' | Some s \<Rightarrow> s)"

text \<open>\<^verbatim>\<open>\d\<close> of a regular expression: the ten ASCII digits.\<close>

definition is_digit :: "char \<Rightarrow> bool" where
  "is_digit c = (let n = (of_char c :: nat) in 48 \<le> n \<and> n \<le> 57)"

text \<open>\<^verbatim>\<open>s.match(/^\/workspace-\d+/)\<close>, read for its truth value only: the string
  starts with \<^verbatim>\<open>/workspace-\<close> and at least one digit follows.\<close>

definition workspaceMatch :: "string \<Rightarrow> bool" where
  "workspaceMatch s =
     (startsWith s ''/workspace-'' \<and>
      (case drop (length ''/workspace-'') s of [] \<Rightarrow> False | d # _ \<Rightarrow> is_digit d))"

text \<open>The truth value of a string that may be \<^verbatim>\<open>undefined\<close>: the empty string and
  \<^verbatim>\<open>undefined\<close> are falsy.\<close>

definition truthy :: "string option \<Rightarrow> bool" where
  "truthy v = (case v of None \<Rightarrow> False | Some s \<Rightarrow> s \<noteq> [])"

section \<open>CloudFront events, requests and responses\<close>

record header =
  hdr_key :: string
  hdr_value :: string

type_synonym headers = "string \<rightharpoonup> header list"

record custom_origin =
  domainName :: string
  port :: nat
  protocol :: string
  path :: string
  sslProtocols :: "string list"
  readTimeout :: nat
  keepaliveTimeout :: nat
  customHeaders :: headers
  originProtocolPolicy :: string

text \<open>The request of a CloudFront event. \<open>uri\<close>, \<open>headers\<close> and \<open>origin\<close> are the fields the
  handlers read and write; \<open>clientIp\<close>, \<open>http_method\<close> and \<open>querystring\<close> stand for the fields
  no handler touches.\<close>

record request =
  clientIp :: string
  http_method :: string
  querystring :: string
  uri :: string
  headers :: headers
  origin :: "custom_origin option"

text \<open>An event is \<^verbatim>\<open>event.Records[0].cf.request\<close> when that chain of properties
  exists, and \<open>None\<close> when \<^verbatim>\<open>event?.Records?.[0]?.cf?.request\<close> is falsy.\<close>

type_synonym event = "request option"

record response =
  status :: string
  statusDescription :: string
  response_headers :: headers
  body :: string

text \<open>What a handler gives back to CloudFront: the request to forward, a response of its
  own, or a rejected promise (an exception that leaves the handler).\<close>

datatype outcome = Forward request | Respond response | Rejects

text \<open>\<^verbatim>\<open>headers[name]?.[0]?.value\<close>.\<close>

definition header_value :: "headers \<Rightarrow> string \<Rightarrow> string option" where
  "header_value hs name =
     (case hs name of
        None \<Rightarrow> None
      | Some [] \<Rightarrow> None
      | Some (h # _) \<Rightarrow> Some (hdr_value h))"

text \<open>The validation and normalisation that opens every resolver (lines 53 to 58 of
  \<^verbatim>\<open>src/index.mjs\<close>): \<open>None\<close> where \<^verbatim>\<open>!request.headers?.host?.[0]?.value\<close> makes the
  handler throw \<^verbatim>\<open>Missing host header\<close>, and the value in lower case otherwise.\<close>

definition normalized_host :: "request \<Rightarrow> string option" where
  "normalized_host request =
     (if \<not> truthy (header_value (headers request) ''host'') then None
      else Some (toLowerCase (template (header_value (headers request) ''host''))))"

section \<open>The lookup store and the cache\<close>

text \<open>The item of the table \<^verbatim>\<open>domain-workspace-mappings\<close>, as the handlers read it:
  \<^verbatim>\<open>Item.workspaceId?.S\<close> and \<^verbatim>\<open>Item.status?.S\<close>.\<close>

record item =
  workspaceId_S :: "string option"
  status_S :: "string option"

text \<open>\<^verbatim>\<open>await dynamoDB.getItem(params)\<close> either throws or returns \<^verbatim>\<open>{ Item }\<close>,
  where \<^verbatim>\<open>Item\<close> may be \<^verbatim>\<open>undefined\<close>. The store is the function from the key
  \<^verbatim>\<open>domain\<close> to that result, at the moment of the call.\<close>

datatype getItem_result = Throws | Returns "item option"

type_synonym store = "string \<Rightarrow> getItem_result"

record cache_entry =
  workspaceId :: "string option"
  expiry :: int

text \<open>The module-level object \<^verbatim>\<open>cache\<close>, keyed by host name.\<close>

type_synonym cache = "string \<rightharpoonup> cache_entry"

definition CACHE_TTL :: int where
  "CACHE_TTL = 300000"

section \<open>Constants shared by the handlers\<close>

definition newDomain :: string where
  "newDomain = ''master.d1ul468muq9dvs.amplifyapp.com''"

definition new_origin :: custom_origin where
  "new_origin =
     \<lparr>domainName = newDomain, port = 443, protocol = ''https'', path = [],
      sslProtocols = [''TLSv1.2''], readTimeout = 30, keepaliveTimeout = 5,
      customHeaders = Map.empty, originProtocolPolicy = ''https-only''\<rparr>"

text \<open>The response with status 500 that every handler builds by hand; only the body
  differs from place to place.\<close>

definition internal_error :: "string \<Rightarrow> response" where
  "internal_error text =
     \<lparr>status = ''500'', statusDescription = ''Internal Server Error'',
      response_headers =
        [''content-type'' \<mapsto> [\<lparr>hdr_key = ''Content-Type'', hdr_value = ''text/plain''\<rparr>]],
      body = text\<rparr>"

text \<open>\<^verbatim>\<open>createNotFoundResponse\<close> of \<^verbatim>\<open>src/index.mjs\<close>.\<close>

definition createNotFoundResponse_index :: "string \<Rightarrow> response" where
  "createNotFoundResponse_index host =
     \<lparr>status = ''404'', statusDescription = ''Not Found'',
      response_headers =
        [''content-type'' \<mapsto> [\<lparr>hdr_key = ''Content-Type'', hdr_value = ''text/plain''\<rparr>]],
      body = ''Domain '' @ host @
        '' is not configured. Please check your domain settings in the VE.AI dashboard.''\<rparr>"

text \<open>\<^verbatim>\<open>createNotFoundResponse\<close> of \<^verbatim>\<open>domain-mapper-edge/index.mjs\<close> and of the first
  module of \<^verbatim>\<open>src/unnamed/part_001\<close>.\<close>

definition createNotFoundResponse :: "string \<Rightarrow> response" where
  "createNotFoundResponse host =
     \<lparr>status = ''404'', statusDescription = ''Not Found'',
      response_headers =
        [''content-type'' \<mapsto> [\<lparr>hdr_key = ''Content-Type'', hdr_value = ''text/plain''\<rparr>]],
      body = ''Domain '' @ host @ '' is not configured''\<rparr>"

text \<open>The test \<^verbatim>\<open>!Item || !Item.workspaceId?.S || Item.status?.S !== 'active'\<close>
  (\<^verbatim>\<open>src/index.mjs\<close> writes it without the first disjunct, which the second covers).\<close>

definition no_active_mapping :: "item option \<Rightarrow> bool" where
  "no_active_mapping Item =
     (case Item of
        None \<Rightarrow> True
      | Some i \<Rightarrow> \<not> truthy (workspaceId_S i) \<or> status_S i \<noteq> Some ''active'')"

text \<open>The constant \<^verbatim>\<open>requestUri\<close> of \<^verbatim>\<open>transformRequest\<close> and of
  \<^verbatim>\<open>domain-mapper-edge\<close>: \<^verbatim>\<open>request.uri.startsWith('/') ? request.uri : `/${request.uri}`\<close>.\<close>

definition requestUri :: "request \<Rightarrow> string" where
  "requestUri request =
     (if startsWith (uri request) ''/'' then uri request else ''/'' @ uri request)"

section \<open>The resolver of \<^verbatim>\<open>src/index.mjs\<close>\<close>

text \<open>Lines 149 to 174: the origin, the host header and the path are set on the request
  itself; the path is \<^verbatim>\<open>`/${workspaceId}${request.uri}`\<close>.\<close>

definition set_origin_index :: "request \<Rightarrow> string \<Rightarrow> request" where
  "set_origin_index request workspace =
     request\<lparr>origin := Some new_origin,
             headers := (headers request)(''host'' \<mapsto> [\<lparr>hdr_key = ''Host'', hdr_value = newDomain\<rparr>]),
             uri := ''/'' @ workspace @ uri request\<rparr>"

text \<open>The test \<^verbatim>\<open>cache[host] && cache[host].expiry > Date.now()\<close>, giving the entry
  when it holds.\<close>

definition cache_hit :: "cache \<Rightarrow> string \<Rightarrow> int \<Rightarrow> cache_entry option" where
  "cache_hit cache host now =
     (case cache host of
        None \<Rightarrow> None
      | Some entry \<Rightarrow> if expiry entry > now then Some entry else None)"

text \<open>
  \<^verbatim>\<open>handler\<close> of \<^verbatim>\<open>src/index.mjs\<close>. The module-level \<^verbatim>\<open>cache\<close> is passed in and
  returned; \<open>now_read\<close> is the value of \<^verbatim>\<open>Date.now()\<close> in the freshness test of line 76
  and \<open>now_write\<close> its value where an entry is written (lines 112 and 123, after the
  \<^verbatim>\<open>await\<close>). The third component lists the keys read from the store by this
  invocation. Both \<^verbatim>\<open>throw\<close>s of the validation are caught by the outer \<^verbatim>\<open>catch\<close>,
  which answers 500 since an \<^verbatim>\<open>Error\<close> has no \<^verbatim>\<open>status\<close>.
\<close>

definition handler_index ::
  "cache \<Rightarrow> store \<Rightarrow> int \<Rightarrow> int \<Rightarrow> event \<Rightarrow> outcome \<times> cache \<times> string list" where
  "handler_index cache dynamoDB now_read now_write event =
     (case event of
        None \<Rightarrow>
          (Respond (internal_error ''An error occurred processing your request''), cache, [])
      | Some request \<Rightarrow>
          (case normalized_host request of
             None \<Rightarrow>
               (Respond (internal_error ''An error occurred processing your request''), cache, [])
           | Some host \<Rightarrow>
                 if includes_str host ''amplifyapp.com'' then (Forward request, cache, [])
                 else if endsWith host ''ve.ai'' then
                   (Forward (set_origin_index request
                       (template (at_index (split_str CHR ''.'' host) 0))), cache, [])
                 else
                   (case cache_hit cache host now_read of
                      Some entry \<Rightarrow>
                        if truthy (workspaceId entry)
                        then (Forward (set_origin_index request (template (workspaceId entry))),
                              cache, [])
                        else (Respond (createNotFoundResponse_index host), cache, [])
                    | None \<Rightarrow>
                        (case dynamoDB host of
                           Throws \<Rightarrow>
                             (Respond (internal_error
                                ''An error occurred while looking up the domain configuration''),
                              cache, [host])
                         | Returns Item \<Rightarrow>
                             if no_active_mapping Item then
                               (Respond (createNotFoundResponse_index host),
                                cache(host \<mapsto> \<lparr>workspaceId = None,
                                                expiry = now_write + CACHE_TTL\<rparr>),
                                [host])
                             else
                               (Forward (set_origin_index request
                                   (template (Option.bind Item workspaceId_S))),
                                cache(host \<mapsto> \<lparr>workspaceId = Option.bind Item workspaceId_S,
                                                expiry = now_write + CACHE_TTL\<rparr>),
                                [host])))))"

section \<open>The resolver of the first module of \<^verbatim>\<open>src/unnamed/part_001\<close>\<close>

text \<open>\<^verbatim>\<open>transformRequest\<close> (lines 185 to 227): the path gets a leading separator if it
  has none, then the workspace in front; the root path becomes \<^verbatim>\<open>`/${workspaceId}/`\<close>.\<close>

definition transformRequest :: "request \<Rightarrow> string \<Rightarrow> request" where
  "transformRequest request workspace =
     (let newUri = (if requestUri request = ''/'' then ''/'' @ workspace @ ''/''
                    else ''/'' @ workspace @ requestUri request)
      in request\<lparr>origin := Some new_origin,
                 headers := (headers request)(''host'' \<mapsto>
                              [\<lparr>hdr_key = ''Host'', hdr_value = newDomain\<rparr>]),
                 uri := newUri\<rparr>)"

text \<open>\<^verbatim>\<open>handler\<close> of that module (lines 42 to 182), with the cache, the two readings of
  the clock and the list of store reads as for \<open>handler_index\<close>.\<close>

definition handler_part_001 ::
  "cache \<Rightarrow> store \<Rightarrow> int \<Rightarrow> int \<Rightarrow> event \<Rightarrow> outcome \<times> cache \<times> string list" where
  "handler_part_001 cache dynamoDB now_read now_write event =
     (case event of
        None \<Rightarrow>
          (Respond (internal_error ''An error occurred processing your request''), cache, [])
      | Some request \<Rightarrow>
          (case normalized_host request of
             None \<Rightarrow>
               (Respond (internal_error ''An error occurred processing your request''), cache, [])
           | Some host \<Rightarrow>
                 if includes_str host ''amplifyapp.com'' then (Forward request, cache, [])
                 else
                   (case cache_hit cache host now_read of
                      Some entry \<Rightarrow>
                        if \<not> truthy (workspaceId entry)
                        then (Respond (createNotFoundResponse host), cache, [])
                        else (Forward (transformRequest request (template (workspaceId entry))),
                              cache, [])
                    | None \<Rightarrow>
                        (case dynamoDB host of
                           Throws \<Rightarrow>
                             (Respond (internal_error
                                ''An error occurred while looking up the domain configuration''),
                              cache, [host])
                         | Returns Item \<Rightarrow>
                             if no_active_mapping Item then
                               (Respond (createNotFoundResponse host),
                                cache(host \<mapsto> \<lparr>workspaceId = None,
                                                expiry = now_write + CACHE_TTL\<rparr>),
                                [host])
                             else
                               (Forward (transformRequest request
                                   (template (Option.bind Item workspaceId_S))),
                                cache(host \<mapsto> \<lparr>workspaceId = Option.bind Item workspaceId_S,
                                                expiry = now_write + CACHE_TTL\<rparr>),
                                [host])))))"

section \<open>The resolver of \<^verbatim>\<open>src/lambda-functions/domain-mapper-edge/index.mjs\<close>\<close>

text \<open>Lines 107 to 113: the path of the transformed request. \<^verbatim>\<open>workspaceId.split('-')[1]\<close> is \<^verbatim>\<open>undefined\<close> when the
  identifier has no hyphen, and the template literal then prints the word.\<close>

definition transformedUri_edge :: "request \<Rightarrow> string \<Rightarrow> string" where
  "transformedUri_edge request workspace =
     (let workspaceNumber = at_index (split_str CHR ''-'' workspace) 1
      in if workspaceMatch (requestUri request) then requestUri request
         else ''/workspace-'' @ template workspaceNumber @
              (if requestUri request = ''/'' then [] else requestUri request))"

text \<open>
  \<^verbatim>\<open>handler\<close> (lines 38 to 195). This module has no cache; the second component lists
  the keys read from the store. The transformed request is a deep copy of the request
  with the new path, the carrier header \<^verbatim>\<open>x-custom-host\<close> and the two debug headers.
\<close>

definition handler_domain_mapper_edge :: "store \<Rightarrow> event \<Rightarrow> outcome \<times> string list" where
  "handler_domain_mapper_edge dynamoDB event =
     (case event of
        None \<Rightarrow> (Respond (internal_error ''An error occurred processing your request''), [])
      | Some request \<Rightarrow>
          (case normalized_host request of
             None \<Rightarrow> (Respond (internal_error ''An error occurred processing your request''), [])
           | Some host \<Rightarrow>
                 if includes_str host ''amplifyapp.com'' then (Forward request, [])
                 else
                   (case dynamoDB host of
                      Throws \<Rightarrow>
                        (Respond (internal_error
                           ''An error occurred while looking up the domain configuration''),
                         [host])
                    | Returns Item \<Rightarrow>
                        if no_active_mapping Item then
                          (Respond (createNotFoundResponse host), [host])
                        else
                          let workspace = template (Option.bind Item workspaceId_S) in
                          (Forward (request\<lparr>
                             uri := transformedUri_edge request workspace,
                             headers := (headers request)
                               (''x-custom-host'' \<mapsto>
                                  [\<lparr>hdr_key = ''X-Custom-Host'', hdr_value = newDomain\<rparr>],
                                ''x-debug-workspace'' \<mapsto>
                                  [\<lparr>hdr_key = ''X-Debug-Workspace'', hdr_value = workspace\<rparr>],
                                ''x-debug-original-uri'' \<mapsto>
                                  [\<lparr>hdr_key = ''X-Debug-Original-Uri'',
                                    hdr_value = uri request\<rparr>])\<rparr>),
                           [host]))))"

section \<open>The finalizer of \<^verbatim>\<open>src/lambda-functions/origin-request-edge/index.mjs\<close>\<close>

text \<open>
  \<^verbatim>\<open>handler\<close> (lines 1 to 56). The carrier is used when
  \<^verbatim>\<open>request.headers['x-custom-host']?.[0]?.value\<close> is truthy; the invalid event is
  answered 500 by the \<^verbatim>\<open>catch\<close>.
\<close>

definition handler_origin_request_edge :: "event \<Rightarrow> outcome" where
  "handler_origin_request_edge event =
     (case event of
        None \<Rightarrow> Respond (internal_error ''An error occurred processing your request'')
      | Some request \<Rightarrow>
          if truthy (header_value (headers request) ''x-custom-host'') then
            let customHost = template (header_value (headers request) ''x-custom-host'') in
            Forward (request\<lparr>headers :=
              ((headers request)(''host'' \<mapsto> [\<lparr>hdr_key = ''Host'', hdr_value = customHost\<rparr>]))
                (''x-custom-host'' := None)\<rparr>)
          else Forward request)"

section \<open>The finalizer of \<^verbatim>\<open>src/unnamed/part_000\<close>\<close>

text \<open>\<^verbatim>\<open>JSON.stringify\<close> of a string: the quotation mark, the backslash and the control
  characters are escaped, the control characters without a short form as \<^verbatim>\<open>\u00XX\<close>.\<close>

definition hex_digit :: "nat \<Rightarrow> char" where
  "hex_digit n = ''0123456789abcdef'' ! (n mod 16)"

definition json_escape :: "char \<Rightarrow> string" where
  "json_escape c =
     (let n = (of_char c :: nat) in
      if n = 8 then [CHR 0x5C, CHR ''b'']
      else if n = 9 then [CHR 0x5C, CHR ''t'']
      else if n = 10 then [CHR 0x5C, CHR ''n'']
      else if n = 12 then [CHR 0x5C, CHR ''f'']
      else if n = 13 then [CHR 0x5C, CHR ''r'']
      else if n = 34 then [CHR 0x5C, CHR 0x22]
      else if n = 92 then [CHR 0x5C, CHR 0x5C]
      else if n < 32 then [CHR 0x5C, CHR ''u'', CHR ''0'', CHR ''0'',
                           hex_digit (n div 16), hex_digit n]
      else [c])"

definition json_string :: "string \<Rightarrow> string" where
  "json_string s = CHR 0x22 # concat (map json_escape s) @ [CHR 0x22]"

text \<open>\<^verbatim>\<open>JSON.stringify\<close> of an object whose values are strings or \<^verbatim>\<open>undefined\<close>: the
  properties in their order, those with value \<^verbatim>\<open>undefined\<close> left out.\<close>

fun json_members :: "(string \<times> string option) list \<Rightarrow> string list" where
  "json_members [] = []"
| "json_members ((k, None) # ps) = json_members ps"
| "json_members ((k, Some v) # ps) = (json_string k @ '':'' @ json_string v) # json_members ps"

fun join_comma :: "string list \<Rightarrow> string" where
  "join_comma [] = []"
| "join_comma [m] = m"
| "join_comma (m # n # ms) = m @ '','' @ join_comma (n # ms)"

definition JSON_stringify :: "(string \<times> string option) list \<Rightarrow> string" where
  "JSON_stringify obj = ''{'' @ join_comma (json_members obj) @ ''}''"

text \<open>Lines 36 to 49: for a path ending in \<^verbatim>\<open>/\<close> or \<^verbatim>\<open>index.html\<close> the header
  \<^verbatim>\<open>x-amz-meta-debug\<close> is set to the JSON text of the three debug values.\<close>

definition add_meta_debug :: "request \<Rightarrow> request" where
  "add_meta_debug request =
     (if endsWith (uri request) ''/'' \<or> endsWith (uri request) ''index.html'' then
        let debugInfo =
              [(''x-debug-workspace'', header_value (headers request) ''x-debug-workspace''),
               (''x-debug-original-uri'', header_value (headers request) ''x-debug-original-uri''),
               (''x-debug-transformed-uri'',
                  header_value (headers request) ''x-debug-transformed-uri'')]
        in request\<lparr>headers := (headers request)(''x-amz-meta-debug'' \<mapsto>
              [\<lparr>hdr_key = ''X-Amz-Meta-Debug'', hdr_value = JSON_stringify debugInfo\<rparr>])\<rparr>
      else request)"

text \<open>
  \<^verbatim>\<open>handler\<close> (lines 1 to 60). The carrier is used whenever the property
  \<^verbatim>\<open>x-custom-host\<close> exists; with an empty array there, \<^verbatim>\<open>[0].value\<close> throws. The
  \<^verbatim>\<open>catch\<close> returns \<^verbatim>\<open>request\<close>, a name declared inside the \<^verbatim>\<open>try\<close> block and
  unknown in the \<^verbatim>\<open>catch\<close>, so every exception leaves the handler. The three
  assignments of a debug header to itself (lines 25 to 34) change nothing.
\<close>

definition handler_part_000 :: "event \<Rightarrow> outcome" where
  "handler_part_000 event =
     (case event of
        None \<Rightarrow> Rejects
      | Some request \<Rightarrow>
          (case headers request ''x-custom-host'' of
             None \<Rightarrow> Forward (add_meta_debug request)
           | Some [] \<Rightarrow> Rejects
           | Some (h # _) \<Rightarrow>
               Forward (add_meta_debug (request\<lparr>headers :=
                 ((headers request)(''host'' \<mapsto>
                    [\<lparr>hdr_key = ''Host'', hdr_value = hdr_value h\<rparr>]))
                   (''x-custom-host'' := None)\<rparr>))))"

section \<open>Notions used in the statements\<close>

text \<open>The store holds a usable mapping of the host to the workspace \<open>w\<close>: the read returns
  an item with a non-empty \<^verbatim>\<open>workspaceId\<close> and the status \<^verbatim>\<open>active\<close>.\<close>

definition active_mapping :: "store \<Rightarrow> string \<Rightarrow> string \<Rightarrow> bool" where
  "active_mapping dynamoDB host w =
     (case dynamoDB host of
        Throws \<Rightarrow> False
      | Returns None \<Rightarrow> False
      | Returns (Some i) \<Rightarrow>
          workspaceId_S i = Some w \<and> w \<noteq> [] \<and> status_S i = Some ''active'')"

text \<open>A cached resolver, at the instant \<open>now\<close>, resolves the host to the workspace \<open>w\<close>:
  through a fresh cache entry holding \<open>w\<close>, or through the store when no entry is fresh.\<close>

definition resolves_to :: "cache \<Rightarrow> store \<Rightarrow> int \<Rightarrow> string \<Rightarrow> string \<Rightarrow> bool" where
  "resolves_to cache dynamoDB now host w =
     (case cache_hit cache host now of
        Some entry \<Rightarrow> workspaceId entry = Some w \<and> w \<noteq> []
      | None \<Rightarrow> active_mapping dynamoDB host w)"

text \<open>The path and a header of the request that a handler forwards, if it forwards one.\<close>

definition forwarded_uri :: "outcome \<Rightarrow> string option" where
  "forwarded_uri out = (case out of Forward r \<Rightarrow> Some (uri r) | Respond _ \<Rightarrow> None | Rejects \<Rightarrow> None)"

definition forwarded_header :: "outcome \<Rightarrow> string \<Rightarrow> header list option" where
  "forwarded_header out name =
     (case out of Forward r \<Rightarrow> headers r name | Respond _ \<Rightarrow> None | Rejects \<Rightarrow> None)"

text \<open>The two functions in sequence, as the distribution runs them (changelog of
  2025-03-17: \<^verbatim>\<open>domain-mapper-edge\<close> on the viewer request, then
  \<^verbatim>\<open>origin-request-edge\<close> on the origin request): the request that the first forwards is
  the event of the second; a response of the first ends the request.\<close>

definition viewer_then_origin :: "store \<Rightarrow> event \<Rightarrow> outcome" where
  "viewer_then_origin dynamoDB event =
     (case fst (handler_domain_mapper_edge dynamoDB event) of
        Forward r \<Rightarrow> handler_origin_request_edge (Some r)
      | Respond answer \<Rightarrow> Respond answer
      | Rejects \<Rightarrow> Rejects)"

section \<open>Concrete requests and stores\<close>

definition gallery_request :: request where
  "gallery_request =
     \<lparr>clientIp = ''203.0.113.7'', http_method = ''GET'', querystring = [], uri = ''/dashboard'',
      headers = [''host'' \<mapsto> [\<lparr>hdr_key = ''Host'', hdr_value = ''Gallery.Example.com''\<rparr>]],
      origin = None\<rparr>"

text \<open>A store with one active mapping, from \<^verbatim>\<open>gallery.example.com\<close> to the workspace
  given, and a record awaiting validation for \<^verbatim>\<open>pending.example.com\<close>.\<close>

definition gallery_store :: "string \<Rightarrow> store" where
  "gallery_store workspace domain =
     (if domain = ''gallery.example.com''
      then Returns (Some \<lparr>workspaceId_S = Some workspace, status_S = Some ''active''\<rparr>)
      else if domain = ''pending.example.com''
      then Returns (Some \<lparr>workspaceId_S = Some ''workspace-2'',
                           status_S = Some ''pending_validation''\<rparr>)
      else Returns None)"

text \<open>A store that is down.\<close>

definition failing_store :: store where
  "failing_store domain = Throws"

text \<open>The request with its host header replaced by the name given.\<close>

definition with_host :: "request \<Rightarrow> string \<Rightarrow> request" where
  "with_host request name =
     request\<lparr>headers := (headers request)(''host'' \<mapsto> [\<lparr>hdr_key = ''Host'', hdr_value = name\<rparr>])\<rparr>"

text \<open>The request with a carrier header as a client could send it.\<close>

definition with_carrier :: "request \<Rightarrow> string \<Rightarrow> request" where
  "with_carrier request name =
     request\<lparr>headers := (headers request)(''x-custom-host'' \<mapsto>
        [\<lparr>hdr_key = ''X-Custom-Host'', hdr_value = name\<rparr>])\<rparr>"

text \<open>The cache of a runtime instance that has served no request yet.\<close>

definition empty_cache :: cache where
  "empty_cache = Map.empty"

text \<open>A store without any record.\<close>

definition empty_store :: store where
  "empty_store domain = Returns None"

text \<open>A store that holds, for every domain, a record still awaiting validation.\<close>

definition pending_store :: store where
  "pending_store domain =
     Returns (Some \<lparr>workspaceId_S = Some ''workspace-2'',
                     status_S = Some ''pending_validation''\<rparr>)"

section \<open>Facts about the concrete requests\<close>

lemma gallery_request_host: "normalized_host gallery_request = Some ''gallery.example.com''"
  by code_simp

lemma with_host_normalized:
  "name \<noteq> [] \<Longrightarrow> normalized_host (with_host request name) = Some (toLowerCase name)"
  by (simp add: normalized_host_def with_host_def header_value_def truthy_def template_def)

section \<open>The platform's own domain\<close>

text \<open>
  C8. A request whose host header, in lower case, contains \<^verbatim>\<open>amplifyapp.com\<close> is returned
  as it came by the resolver of \<^verbatim>\<open>src/index.mjs\<close> and by the one of
  \<^verbatim>\<open>domain-mapper-edge\<close>: same path, same headers, the cache as it was whatever it
  held, and no key read from the store.
\<close>

theorem platform_domain_passes_through:
  assumes "normalized_host request = Some host"
    and "includes_str host ''amplifyapp.com''"
  shows "handler_index cache dynamoDB now_read now_write (Some request)
           = (Forward request, cache, [])
       \<and> handler_domain_mapper_edge dynamoDB (Some request) = (Forward request, [])"
  using assms by (simp add: handler_index_def handler_domain_mapper_edge_def)

theorem platform_domain_passes_through_witness:
  "handler_index empty_cache failing_store 0 0
       (Some (with_host gallery_request ''Master.D1ul468muq9dvs.AmplifyApp.com''))
     = (Forward (with_host gallery_request ''Master.D1ul468muq9dvs.AmplifyApp.com''),
        empty_cache, [])
   \<and> handler_domain_mapper_edge failing_store
       (Some (with_host gallery_request ''Master.D1ul468muq9dvs.AmplifyApp.com''))
     = (Forward (with_host gallery_request ''Master.D1ul468muq9dvs.AmplifyApp.com''), [])"
proof -
  have lower: "toLowerCase ''Master.D1ul468muq9dvs.AmplifyApp.com''
      = ''master.d1ul468muq9dvs.amplifyapp.com''"
    by code_simp
  have host: "normalized_host (with_host gallery_request ''Master.D1ul468muq9dvs.AmplifyApp.com'')
      = Some ''master.d1ul468muq9dvs.amplifyapp.com''"
    using with_host_normalized [of "''Master.D1ul468muq9dvs.AmplifyApp.com''" gallery_request] lower
    by simp
  have inc: "includes_str ''master.d1ul468muq9dvs.amplifyapp.com'' ''amplifyapp.com''"
    by simp
  show ?thesis
    using platform_domain_passes_through [OF host inc] by simp
qed

section \<open>Facts shared by the statements about the cache\<close>

lemma no_active_mapping_inactive:
  "status_S i \<noteq> Some ''active'' \<Longrightarrow> no_active_mapping (Some i)"
  by (simp add: no_active_mapping_def)

lemma handler_index_read_made:
  assumes "handler_index cache dynamoDB now_read now_write (Some request) = (out, cache', [host])"
  shows "normalized_host request = Some host \<and> \<not> includes_str host ''amplifyapp.com''
       \<and> \<not> endsWith host ''ve.ai'' \<and> cache_hit cache host now_read = None"
  using assms
  by (auto simp: handler_index_def Let_def split: option.splits if_splits getItem_result.splits)

lemma cache_hit_later:
  "cache_hit cache host now = None \<Longrightarrow> now \<le> later \<Longrightarrow> cache_hit cache host later = None"
  by (auto simp: cache_hit_def split: option.splits if_splits)

lemma handler_index_miss_reads:
  assumes "normalized_host request = Some host" "\<not> includes_str host ''amplifyapp.com''"
    "\<not> endsWith host ''ve.ai''" "cache_hit cache host now_read = None"
  shows "snd (snd (handler_index cache dynamoDB now_read now_write (Some request))) = [host]"
  using assms
  by (simp add: handler_index_def Let_def split: getItem_result.splits)

lemma gallery_host_plain:
  "\<not> includes_str ''gallery.example.com'' ''amplifyapp.com''"
  "\<not> endsWith ''gallery.example.com'' ''ve.ai''"
  by (simp_all add: endsWith_def)

lemma empty_cache_miss: "cache_hit empty_cache host now = None"
  by (simp add: cache_hit_def empty_cache_def)

lemma active_mapping_found:
  assumes "active_mapping dynamoDB host w"
  shows "\<exists>i. dynamoDB host = Returns (Some i) \<and> \<not> no_active_mapping (Some i)
           \<and> template (Option.bind (Some i) workspaceId_S) = w
           \<and> Option.bind (Some i) workspaceId_S = Some w"
  using assms
  by (auto simp: active_mapping_def no_active_mapping_def truthy_def template_def
           split: getItem_result.splits option.splits)

lemma found_active_mapping:
  assumes "dynamoDB host = Returns Item" "\<not> no_active_mapping Item"
  shows "\<exists>w. active_mapping dynamoDB host w \<and> Option.bind Item workspaceId_S = Some w
           \<and> template (Option.bind Item workspaceId_S) = w \<and> w \<noteq> []"
  using assms
  by (auto simp: active_mapping_def no_active_mapping_def truthy_def template_def
           split: getItem_result.splits option.splits)

lemma cache_hit_written:
  "now < write + CACHE_TTL \<Longrightarrow>
   cache_hit (cache(host \<mapsto> \<lparr>workspaceId = v, expiry = write + CACHE_TTL\<rparr>)) host now
     = Some \<lparr>workspaceId = v, expiry = write + CACHE_TTL\<rparr>"
  by (simp add: cache_hit_def)

lemma handler_index_reads_at_most_one:
  "length (snd (snd (handler_index cache dynamoDB now_read now_write event))) \<le> 1"
  by (simp add: handler_index_def Let_def split: option.splits getItem_result.splits)

lemma handler_index_found:
  assumes "normalized_host request = Some host" "\<not> includes_str host ''amplifyapp.com''"
    "\<not> endsWith host ''ve.ai''" "cache_hit cache host now_read = None"
    "active_mapping dynamoDB host w"
  shows "handler_index cache dynamoDB now_read now_write (Some request)
     = (Forward (set_origin_index request w),
        cache(host \<mapsto> \<lparr>workspaceId = Some w, expiry = now_write + CACHE_TTL\<rparr>), [host])"
proof -
  from active_mapping_found [OF assms(5)] obtain i where
    "dynamoDB host = Returns (Some i)" "\<not> no_active_mapping (Some i)"
    "template (Option.bind (Some i) workspaceId_S) = w" "Option.bind (Some i) workspaceId_S = Some w"
    by blast
  then show ?thesis
    using assms(1-4) by (simp add: handler_index_def)
qed

lemma handler_index_positive_hit:
  assumes "normalized_host request = Some host" "\<not> includes_str host ''amplifyapp.com''"
    "\<not> endsWith host ''ve.ai''"
    "cache_hit cache host now_read = Some \<lparr>workspaceId = Some w, expiry = e\<rparr>" "w \<noteq> []"
  shows "handler_index cache dynamoDB now_read now_write (Some request)
     = (Forward (set_origin_index request w), cache, [])"
  using assms by (simp add: handler_index_def truthy_def template_def)

lemma handler_index_negative_hit:
  assumes "normalized_host request = Some host" "\<not> includes_str host ''amplifyapp.com''"
    "\<not> endsWith host ''ve.ai''"
    "cache_hit cache host now_read = Some \<lparr>workspaceId = None, expiry = e\<rparr>"
  shows "handler_index cache dynamoDB now_read now_write (Some request)
     = (Respond (createNotFoundResponse_index host), cache, [])"
  using assms by (simp add: handler_index_def truthy_def)

lemma handler_index_not_found:
  assumes "normalized_host request = Some host" "\<not> includes_str host ''amplifyapp.com''"
    "\<not> endsWith host ''ve.ai''" "cache_hit cache host now_read = None"
    "dynamoDB host = Returns Item" "no_active_mapping Item"
  shows "handler_index cache dynamoDB now_read now_write (Some request)
     = (Respond (createNotFoundResponse_index host),
        cache(host \<mapsto> \<lparr>workspaceId = None, expiry = now_write + CACHE_TTL\<rparr>), [host])"
  using assms by (simp add: handler_index_def)

lemma handler_domain_mapper_edge_reads:
  assumes "normalized_host request = Some host" "\<not> includes_str host ''amplifyapp.com''"
  shows "snd (handler_domain_mapper_edge dynamoDB (Some request)) = [host]"
  using assms
  by (simp add: handler_domain_mapper_edge_def Let_def split: getItem_result.splits)

lemma gallery_store_active: "active_mapping (gallery_store w) ''gallery.example.com'' v \<longleftrightarrow> v = w \<and> w \<noteq> []"
  by (auto simp: active_mapping_def gallery_store_def)

lemma handler_domain_mapper_edge_not_found:
  assumes "normalized_host request = Some host" "\<not> includes_str host ''amplifyapp.com''"
    "dynamoDB host = Returns Item" "no_active_mapping Item"
  shows "handler_domain_mapper_edge dynamoDB (Some request)
     = (Respond (createNotFoundResponse host), [host])"
  using assms by (simp add: handler_domain_mapper_edge_def)

lemma unknown_host:
  "normalized_host (with_host gallery_request ''unknown.example.com'') = Some ''unknown.example.com''"
proof -
  have "toLowerCase ''unknown.example.com'' = ''unknown.example.com''" by code_simp
  then show ?thesis
    using with_host_normalized [of "''unknown.example.com''" gallery_request] by simp
qed

lemma unknown_host_plain:
  "\<not> includes_str ''unknown.example.com'' ''amplifyapp.com''"
  "\<not> endsWith ''unknown.example.com'' ''ve.ai''"
  by (simp_all add: endsWith_def)

section \<open>Failure of the store\<close>

text \<open>
  C6. When an invocation of the resolver of \<^verbatim>\<open>src/index.mjs\<close> reads the store for a
  host and the read throws, the answer is the fixed response with status 500, the cache is
  left exactly as it was, and any later invocation for the same host (at the same instant
  or after) reads the store again, whatever the store then answers.
\<close>

theorem store_failure_not_cached:
  assumes first: "handler_index cache dynamoDB now_read now_write (Some request)
                    = (out, cache', [host])"
    and down: "dynamoDB host = Throws"
  shows "out = Respond (internal_error
                  ''An error occurred while looking up the domain configuration'')
       \<and> status (internal_error
                  ''An error occurred while looking up the domain configuration'') = ''500''
       \<and> cache' = cache
       \<and> (\<forall>request2 dynamoDB2 later later_write.
             normalized_host request2 = Some host \<and> now_read \<le> later
             \<longrightarrow> snd (snd (handler_index cache' dynamoDB2 later later_write (Some request2)))
                   = [host])"
proof -
  note made = handler_index_read_made [OF first]
  from made have host: "normalized_host request = Some host"
    and plain: "\<not> includes_str host ''amplifyapp.com''" "\<not> endsWith host ''ve.ai''"
    and miss: "cache_hit cache host now_read = None"
    by simp_all
  have result: "handler_index cache dynamoDB now_read now_write (Some request)
      = (Respond (internal_error ''An error occurred while looking up the domain configuration''),
         cache, [host])"
    using host plain miss down by (simp add: handler_index_def)
  with first have out: "out = Respond (internal_error
      ''An error occurred while looking up the domain configuration'')"
    and same: "cache' = cache"
    by simp_all
  have again: "snd (snd (handler_index cache' dynamoDB2 later later_write (Some request2))) = [host]"
    if "normalized_host request2 = Some host" "now_read \<le> later"
    for request2 dynamoDB2 later later_write
    using handler_index_miss_reads [OF that(1) plain cache_hit_later [OF miss that(2)]] same
    by simp
  show ?thesis
    using out same again by (simp add: internal_error_def)
qed

theorem store_failure_not_cached_witness:
  "handler_index empty_cache failing_store 1000 1020 (Some gallery_request)
     = (Respond (internal_error ''An error occurred while looking up the domain configuration''),
        empty_cache, [''gallery.example.com''])
   \<and> snd (snd (handler_index empty_cache (gallery_store ''workspace-1'') 1000 1030
        (Some gallery_request))) = [''gallery.example.com'']"
proof -
  have first: "handler_index empty_cache failing_store 1000 1020 (Some gallery_request)
     = (Respond (internal_error ''An error occurred while looking up the domain configuration''),
        empty_cache, [''gallery.example.com''])"
    using gallery_request_host empty_cache_miss gallery_host_plain
    by (simp add: handler_index_def failing_store_def)
  have down: "failing_store ''gallery.example.com'' = Throws"
    by (simp add: failing_store_def)
  show ?thesis
    using store_failure_not_cached [OF first down] first gallery_request_host by simp
qed

section \<open>No record and an inactive record\<close>

lemma pending_host: "normalized_host (with_host gallery_request ''pending.example.com'') = Some ''pending.example.com''"
proof -
  have "toLowerCase ''pending.example.com'' = ''pending.example.com''" by code_simp
  then show ?thesis using with_host_normalized [of "''pending.example.com''" gallery_request] by simp
qed

lemma nobody_ve_ai_host:
  "normalized_host (with_host gallery_request ''nobody.ve.ai'') = Some ''nobody.ve.ai''"
proof -
  have "toLowerCase ''nobody.ve.ai'' = ''nobody.ve.ai''" by code_simp
  then show ?thesis
    using with_host_normalized [of "''nobody.ve.ai''" gallery_request] by simp
qed

lemma platform_host:
  "normalized_host (with_host gallery_request ''master.d1ul468muq9dvs.amplifyapp.com'')
     = Some ''master.d1ul468muq9dvs.amplifyapp.com''"
proof -
  have "toLowerCase ''master.d1ul468muq9dvs.amplifyapp.com''
      = ''master.d1ul468muq9dvs.amplifyapp.com''" by code_simp
  then show ?thesis
    using with_host_normalized [of "''master.d1ul468muq9dvs.amplifyapp.com''" gallery_request]
    by simp
qed

text \<open>
  C7, as amended. Take a request for a host, a store with no record for that host and a
  store with a record for it whose status is not \<^verbatim>\<open>active\<close> (absent,
  \<^verbatim>\<open>pending_validation\<close>, \<^verbatim>\<open>error\<close>, anything else). The resolver of
  \<^verbatim>\<open>src/index.mjs\<close> and the one of \<^verbatim>\<open>domain-mapper-edge\<close> each give the same result on
  both stores (response, cache and store reads alike). That common result is the response
  \<^verbatim>\<open>createNotFoundResponse(host)\<close> whenever the resolver reads the store: in
  \<^verbatim>\<open>src/index.mjs\<close> for a host outside the platform's domain that does not end in
  \<^verbatim>\<open>ve.ai\<close> and has no fresh cache entry, in \<^verbatim>\<open>domain-mapper-edge\<close> for a host outside
  the platform's domain.
\<close>

theorem absent_and_inactive_indistinguishable:
  assumes host: "normalized_host request = Some host"
    and absent: "store_absent host = Returns None"
    and present: "store_inactive host = Returns (Some i)"
    and inactive: "status_S i \<noteq> Some ''active''"
  shows "handler_index cache store_absent now_read now_write (Some request)
           = handler_index cache store_inactive now_read now_write (Some request)
       \<and> handler_domain_mapper_edge store_absent (Some request)
           = handler_domain_mapper_edge store_inactive (Some request)
       \<and> (\<not> includes_str host ''amplifyapp.com'' \<and> \<not> endsWith host ''ve.ai''
            \<and> cache_hit cache host now_read = None
            \<longrightarrow> fst (handler_index cache store_absent now_read now_write (Some request))
                  = Respond (createNotFoundResponse_index host)
              \<and> fst (handler_index cache store_inactive now_read now_write (Some request))
                  = Respond (createNotFoundResponse_index host))
       \<and> (\<not> includes_str host ''amplifyapp.com''
            \<longrightarrow> fst (handler_domain_mapper_edge store_absent (Some request))
                  = Respond (createNotFoundResponse host)
              \<and> fst (handler_domain_mapper_edge store_inactive (Some request))
                  = Respond (createNotFoundResponse host))"
proof -
  have a: "no_active_mapping None" by (simp add: no_active_mapping_def)
  have b: "no_active_mapping (Some i)" using inactive by (rule no_active_mapping_inactive)
  show ?thesis
    using host absent present a b
    by (simp add: handler_index_def handler_domain_mapper_edge_def split: option.splits)
qed

theorem absent_and_inactive_indistinguishable_witness:
  "handler_index empty_cache empty_store 0 5 (Some (with_host gallery_request ''pending.example.com''))
     = handler_index empty_cache (gallery_store ''workspace-1'') 0 5
         (Some (with_host gallery_request ''pending.example.com''))
   \<and> handler_domain_mapper_edge empty_store (Some (with_host gallery_request ''pending.example.com''))
     = handler_domain_mapper_edge (gallery_store ''workspace-1'')
         (Some (with_host gallery_request ''pending.example.com''))
   \<and> fst (handler_index empty_cache empty_store 0 5
         (Some (with_host gallery_request ''pending.example.com'')))
     = Respond (createNotFoundResponse_index ''pending.example.com'')
   \<and> fst (handler_index empty_cache (gallery_store ''workspace-1'') 0 5
         (Some (with_host gallery_request ''pending.example.com'')))
     = Respond (createNotFoundResponse_index ''pending.example.com'')
   \<and> fst (handler_domain_mapper_edge empty_store
         (Some (with_host gallery_request ''pending.example.com'')))
     = Respond (createNotFoundResponse ''pending.example.com'')
   \<and> fst (handler_domain_mapper_edge (gallery_store ''workspace-1'')
         (Some (with_host gallery_request ''pending.example.com'')))
     = Respond (createNotFoundResponse ''pending.example.com'')"
proof -
  have absent: "empty_store ''pending.example.com'' = Returns None"
    by (simp add: empty_store_def)
  have present: "gallery_store ''workspace-1'' ''pending.example.com''
      = Returns (Some \<lparr>workspaceId_S = Some ''workspace-2'', status_S = Some ''pending_validation''\<rparr>)"
    by (simp add: gallery_store_def)
  have inactive: "status_S \<lparr>workspaceId_S = Some ''workspace-2'', status_S = Some ''pending_validation''\<rparr>
      \<noteq> Some ''active''"
    by simp
  have plain: "\<not> includes_str ''pending.example.com'' ''amplifyapp.com''"
    "\<not> endsWith ''pending.example.com'' ''ve.ai''"
    by (simp_all add: endsWith_def)
  note at_pending = absent_and_inactive_indistinguishable
        [where store_absent = empty_store and store_inactive = "gallery_store ''workspace-1''"
           and cache = empty_cache and now_read = 0 and now_write = 5,
         OF pending_host absent present inactive]
  from at_pending plain empty_cache_miss [of "''pending.example.com''" 0]
  show ?thesis
    by blast
qed

text \<open>
  C7 as stated, for every host, fails where the store is not read: the two stores still
  give the same result, but it is a forwarded request and not the not-configured
  response. The resolver of \<^verbatim>\<open>src/index.mjs\<close> forwards a host ending in \<^verbatim>\<open>ve.ai\<close> and a
  host with a fresh positive cache entry, and \<^verbatim>\<open>domain-mapper-edge\<close> forwards a host of
  the platform's domain, whether the store has no record or a record awaiting validation.
\<close>

theorem unread_store_gives_no_refusal:
  "empty_store ''nobody.ve.ai'' = Returns None
   \<and> pending_store ''nobody.ve.ai''
     = Returns (Some \<lparr>workspaceId_S = Some ''workspace-2'',
                       status_S = Some ''pending_validation''\<rparr>)
   \<and> handler_index empty_cache empty_store 1000 1020
       (Some (with_host gallery_request ''nobody.ve.ai''))
     = (Forward (set_origin_index (with_host gallery_request ''nobody.ve.ai'') ''nobody''),
        empty_cache, [])
   \<and> handler_index empty_cache pending_store 1000 1020
       (Some (with_host gallery_request ''nobody.ve.ai''))
     = (Forward (set_origin_index (with_host gallery_request ''nobody.ve.ai'') ''nobody''),
        empty_cache, [])
   \<and> handler_index
       (empty_cache(''pending.example.com'' \<mapsto>
          \<lparr>workspaceId = Some ''workspace-2'', expiry = 300000\<rparr>))
       empty_store 1000 1020 (Some (with_host gallery_request ''pending.example.com''))
     = (Forward (set_origin_index (with_host gallery_request ''pending.example.com'')
          ''workspace-2''),
        empty_cache(''pending.example.com'' \<mapsto>
          \<lparr>workspaceId = Some ''workspace-2'', expiry = 300000\<rparr>), [])
   \<and> handler_index
       (empty_cache(''pending.example.com'' \<mapsto>
          \<lparr>workspaceId = Some ''workspace-2'', expiry = 300000\<rparr>))
       pending_store 1000 1020 (Some (with_host gallery_request ''pending.example.com''))
     = (Forward (set_origin_index (with_host gallery_request ''pending.example.com'')
          ''workspace-2''),
        empty_cache(''pending.example.com'' \<mapsto>
          \<lparr>workspaceId = Some ''workspace-2'', expiry = 300000\<rparr>), [])
   \<and> handler_domain_mapper_edge empty_store
       (Some (with_host gallery_request ''master.d1ul468muq9dvs.amplifyapp.com''))
     = (Forward (with_host gallery_request ''master.d1ul468muq9dvs.amplifyapp.com''), [])
   \<and> handler_domain_mapper_edge pending_store
       (Some (with_host gallery_request ''master.d1ul468muq9dvs.amplifyapp.com''))
     = (Forward (with_host gallery_request ''master.d1ul468muq9dvs.amplifyapp.com''), [])"
proof -
  have stores: "empty_store ''nobody.ve.ai'' = Returns None"
    "pending_store ''nobody.ve.ai''
     = Returns (Some \<lparr>workspaceId_S = Some ''workspace-2'',
                       status_S = Some ''pending_validation''\<rparr>)"
    by (simp_all add: empty_store_def pending_store_def)
  have ve_ai: "handler_index empty_cache dynamoDB 1000 1020
       (Some (with_host gallery_request ''nobody.ve.ai''))
     = (Forward (set_origin_index (with_host gallery_request ''nobody.ve.ai'') ''nobody''),
        empty_cache, [])" for dynamoDB
    using nobody_ve_ai_host
    by (simp add: handler_index_def endsWith_def at_index_def template_def)
  have plain: "\<not> includes_str ''pending.example.com'' ''amplifyapp.com''"
    "\<not> endsWith ''pending.example.com'' ''ve.ai''"
    by (simp_all add: endsWith_def)
  have hit: "cache_hit (empty_cache(''pending.example.com'' \<mapsto>
          \<lparr>workspaceId = Some ''workspace-2'', expiry = 300000\<rparr>)) ''pending.example.com'' 1000
      = Some \<lparr>workspaceId = Some ''workspace-2'', expiry = 300000\<rparr>"
    by (simp add: cache_hit_def)
  have cached: "handler_index
       (empty_cache(''pending.example.com'' \<mapsto>
          \<lparr>workspaceId = Some ''workspace-2'', expiry = 300000\<rparr>))
       dynamoDB 1000 1020 (Some (with_host gallery_request ''pending.example.com''))
     = (Forward (set_origin_index (with_host gallery_request ''pending.example.com'')
          ''workspace-2''),
        empty_cache(''pending.example.com'' \<mapsto>
          \<lparr>workspaceId = Some ''workspace-2'', expiry = 300000\<rparr>), [])" for dynamoDB
    by (rule handler_index_positive_hit [OF pending_host plain hit]) simp
  have platform: "handler_domain_mapper_edge dynamoDB
       (Some (with_host gallery_request ''master.d1ul468muq9dvs.amplifyapp.com''))
     = (Forward (with_host gallery_request ''master.d1ul468muq9dvs.amplifyapp.com''), [])"
    for dynamoDB
    using platform_host by (simp add: handler_domain_mapper_edge_def)
  show ?thesis
    using stores ve_ai cached platform by simp
qed

section \<open>Repeated resolution of a mapped host\<close>

text \<open>
  C2, as amended. In the resolver of \<^verbatim>\<open>src/index.mjs\<close>: when a first invocation for a
  host ends in a forwarded request, and a second invocation for the same host starts less
  than \<^verbatim>\<open>CACHE_TTL\<close> (five minutes, in milliseconds) after the first one's cache write, the two
  invocations read the store at most once in total; and when the first one did read the
  store, it found an active mapping to a workspace \<open>w\<close>, and the second one reads nothing,
  leaves the cache as it is and forwards its request rewritten for the same \<open>w\<close>, whatever
  the store holds by then. The resolver of \<^verbatim>\<open>domain-mapper-edge\<close> keeps no cache: each
  invocation for a host outside the platform's domain reads the store once.
\<close>

theorem cached_resolution_reads_store_once:
  assumes host1: "normalized_host request1 = Some host"
    and host2: "normalized_host request2 = Some host"
    and first: "handler_index cache dynamoDB1 now1 write1 (Some request1)
                  = (Forward r1, cache1, reads1)"
    and window: "now2 < write1 + CACHE_TTL"
  shows "CACHE_TTL = 5 * 60 * 1000
       \<and> length reads1
           + length (snd (snd (handler_index cache1 dynamoDB2 now2 write2 (Some request2)))) \<le> 1
       \<and> (reads1 \<noteq> [] \<longrightarrow>
            (\<exists>w. active_mapping dynamoDB1 host w \<and> r1 = set_origin_index request1 w
               \<and> handler_index cache1 dynamoDB2 now2 write2 (Some request2)
                   = (Forward (set_origin_index request2 w), cache1, [])))
       \<and> (\<not> includes_str host ''amplifyapp.com'' \<longrightarrow>
            snd (handler_domain_mapper_edge dynamoDB1 (Some request1)) = [host]
          \<and> snd (handler_domain_mapper_edge dynamoDB2 (Some request2)) = [host])"
proof -
  have edge: "\<not> includes_str host ''amplifyapp.com'' \<longrightarrow>
            snd (handler_domain_mapper_edge dynamoDB1 (Some request1)) = [host]
          \<and> snd (handler_domain_mapper_edge dynamoDB2 (Some request2)) = [host]"
    using handler_domain_mapper_edge_reads [OF host1] handler_domain_mapper_edge_reads [OF host2]
    by simp
  show ?thesis
  proof (cases "reads1 = []")
    case True
    then show ?thesis
      using handler_index_reads_at_most_one [of cache1 dynamoDB2 now2 write2 "Some request2"] edge
      by (simp add: CACHE_TTL_def)
  next
    case False
    with first host1 have reads1: "reads1 = [host]"
      by (auto simp: handler_index_def Let_def split: option.splits if_splits getItem_result.splits)
    note made = handler_index_read_made [OF first [unfolded reads1]]
    from made have plain: "\<not> includes_str host ''amplifyapp.com''" "\<not> endsWith host ''ve.ai''"
      and miss: "cache_hit cache host now1 = None"
      by simp_all
    from first host1 plain miss obtain Item where
      item: "dynamoDB1 host = Returns Item" "\<not> no_active_mapping Item"
      by (auto simp: handler_index_def split: getItem_result.splits if_splits)
    from found_active_mapping [of dynamoDB1 host Item, OF item] obtain w where
      w: "active_mapping dynamoDB1 host w" "w \<noteq> []"
      by blast
    have "handler_index cache dynamoDB1 now1 write1 (Some request1)
       = (Forward (set_origin_index request1 w),
          cache(host \<mapsto> \<lparr>workspaceId = Some w, expiry = write1 + CACHE_TTL\<rparr>), [host])"
      by (rule handler_index_found [OF host1 plain miss w(1)])
    with first have r1: "r1 = set_origin_index request1 w"
      and cache1: "cache1 = cache(host \<mapsto> \<lparr>workspaceId = Some w, expiry = write1 + CACHE_TTL\<rparr>)"
      by simp_all
    have second: "handler_index cache1 dynamoDB2 now2 write2 (Some request2)
        = (Forward (set_origin_index request2 w), cache1, [])"
      using handler_index_positive_hit [OF host2 plain _ w(2)] cache_hit_written [OF window]
      unfolding cache1 by blast
    have "CACHE_TTL = 5 * 60 * 1000"
      by (simp add: CACHE_TTL_def)
    then show ?thesis
      using reads1 w(1) r1 second edge by auto
  qed
qed

theorem cached_resolution_reads_store_once_witness:
  "handler_index empty_cache (gallery_store ''workspace-1'') 1000 1020 (Some gallery_request)
     = (Forward (set_origin_index gallery_request ''workspace-1''),
        empty_cache(''gallery.example.com'' \<mapsto>
          \<lparr>workspaceId = Some ''workspace-1'', expiry = 1020 + CACHE_TTL\<rparr>),
        [''gallery.example.com''])
   \<and> handler_index
        (empty_cache(''gallery.example.com'' \<mapsto>
          \<lparr>workspaceId = Some ''workspace-1'', expiry = 1020 + CACHE_TTL\<rparr>))
        failing_store 300000 300020 (Some gallery_request)
     = (Forward (set_origin_index gallery_request ''workspace-1''),
        empty_cache(''gallery.example.com'' \<mapsto>
          \<lparr>workspaceId = Some ''workspace-1'', expiry = 1020 + CACHE_TTL\<rparr>),
        [])"
proof -
  have active: "active_mapping (gallery_store ''workspace-1'') ''gallery.example.com'' ''workspace-1''"
    by (simp add: gallery_store_active)
  have first: "handler_index empty_cache (gallery_store ''workspace-1'') 1000 1020 (Some gallery_request)
     = (Forward (set_origin_index gallery_request ''workspace-1''),
        empty_cache(''gallery.example.com'' \<mapsto>
          \<lparr>workspaceId = Some ''workspace-1'', expiry = 1020 + CACHE_TTL\<rparr>),
        [''gallery.example.com''])"
    by (rule handler_index_found [OF gallery_request_host gallery_host_plain empty_cache_miss active])
  have window: "(300000::int) < 1020 + CACHE_TTL"
    by (simp add: CACHE_TTL_def)
  show ?thesis
    using cached_resolution_reads_store_once
      [where ?dynamoDB2.0 = failing_store and ?write2.0 = 300020,
       OF gallery_request_host gallery_request_host first window]
      first
    by (auto simp: gallery_store_active)
qed

text \<open>
  C2 as stated fails on \<^verbatim>\<open>domain-mapper-edge\<close>: with an active mapping of
  \<^verbatim>\<open>gallery.example.com\<close>, each of two successive resolutions reads the store, two reads
  in total.
\<close>

theorem uncached_resolver_reads_store_twice:
  "forwarded_uri (fst (handler_domain_mapper_edge (gallery_store ''workspace-1'')
       (Some gallery_request))) = Some ''/workspace-1/dashboard''
   \<and> snd (handler_domain_mapper_edge (gallery_store ''workspace-1'') (Some gallery_request))
     @ snd (handler_domain_mapper_edge (gallery_store ''workspace-1'') (Some gallery_request))
     = [''gallery.example.com'', ''gallery.example.com'']"
  using gallery_request_host gallery_host_plain
  by (simp add: handler_domain_mapper_edge_def gallery_store_def no_active_mapping_def
      truthy_def template_def forwarded_uri_def transformedUri_edge_def requestUri_def
      gallery_request_def workspaceMatch_def at_index_def)

section \<open>Repeated requests for a host without mapping\<close>

text \<open>
  C5, as amended. In the resolver of \<^verbatim>\<open>src/index.mjs\<close>, for a host outside the platform's
  domain that does not end in \<^verbatim>\<open>ve.ai\<close>: when the first invocation finds no fresh cache
  entry and the store returns no active mapping, it reads the store once, writes a
  negative entry expiring \<^verbatim>\<open>CACHE_TTL\<close> after the write and answers
  \<^verbatim>\<open>createNotFoundResponse(host)\<close>; a second invocation for the same host that starts
  before that expiry reads nothing, leaves the cache as it is and gives the same response,
  whatever the store holds by then. The resolver of \<^verbatim>\<open>domain-mapper-edge\<close> gives its
  not-configured response to both requests but reads the store for each.
\<close>

theorem negative_entry_suppresses_reads:
  assumes host1: "normalized_host request1 = Some host"
    and host2: "normalized_host request2 = Some host"
    and plain: "\<not> includes_str host ''amplifyapp.com''" "\<not> endsWith host ''ve.ai''"
    and miss: "cache_hit cache host now1 = None"
    and item: "dynamoDB1 host = Returns Item"
    and none: "no_active_mapping Item"
    and window: "now2 < write1 + CACHE_TTL"
  shows "handler_index cache dynamoDB1 now1 write1 (Some request1)
           = (Respond (createNotFoundResponse_index host),
              cache(host \<mapsto> \<lparr>workspaceId = None, expiry = write1 + CACHE_TTL\<rparr>), [host])
       \<and> handler_index (cache(host \<mapsto> \<lparr>workspaceId = None, expiry = write1 + CACHE_TTL\<rparr>))
             dynamoDB2 now2 write2 (Some request2)
           = (Respond (createNotFoundResponse_index host),
              cache(host \<mapsto> \<lparr>workspaceId = None, expiry = write1 + CACHE_TTL\<rparr>), [])
       \<and> handler_domain_mapper_edge dynamoDB1 (Some request1)
           = (Respond (createNotFoundResponse host), [host])
       \<and> handler_domain_mapper_edge dynamoDB1 (Some request2)
           = (Respond (createNotFoundResponse host), [host])"
  using handler_index_not_found [where dynamoDB = dynamoDB1, OF host1 plain miss item none]
    handler_index_negative_hit [OF host2 plain cache_hit_written [OF window]]
    handler_domain_mapper_edge_not_found [where dynamoDB = dynamoDB1, OF host1 plain(1) item none]
    handler_domain_mapper_edge_not_found [where dynamoDB = dynamoDB1, OF host2 plain(1) item none]
  by simp

theorem negative_entry_suppresses_reads_witness:
  "handler_index empty_cache empty_store 1000 1020
       (Some (with_host gallery_request ''unknown.example.com''))
     = (Respond (createNotFoundResponse_index ''unknown.example.com''),
        empty_cache(''unknown.example.com'' \<mapsto>
          \<lparr>workspaceId = None, expiry = 1020 + CACHE_TTL\<rparr>),
        [''unknown.example.com''])
   \<and> handler_index
        (empty_cache(''unknown.example.com'' \<mapsto>
          \<lparr>workspaceId = None, expiry = 1020 + CACHE_TTL\<rparr>))
        (gallery_store ''workspace-1'') 300000 300020
        (Some (with_host gallery_request ''unknown.example.com''))
     = (Respond (createNotFoundResponse_index ''unknown.example.com''),
        empty_cache(''unknown.example.com'' \<mapsto>
          \<lparr>workspaceId = None, expiry = 1020 + CACHE_TTL\<rparr>),
        [])"
proof -
  have item: "empty_store ''unknown.example.com'' = Returns None"
    by (simp add: empty_store_def)
  have none: "no_active_mapping None"
    by (simp add: no_active_mapping_def)
  have window: "(300000::int) < 1020 + CACHE_TTL"
    by (simp add: CACHE_TTL_def)
  show ?thesis
    using negative_entry_suppresses_reads
      [where ?dynamoDB1.0 = empty_store and ?dynamoDB2.0 = "gallery_store ''workspace-1''"
         and ?write2.0 = 300020,
       OF unknown_host unknown_host unknown_host_plain empty_cache_miss item none window]
    by simp
qed

text \<open>
  C5 as stated fails in three places: \<^verbatim>\<open>domain-mapper-edge\<close> reads the store on every
  request for an unmapped host; the resolver of \<^verbatim>\<open>src/index.mjs\<close> forwards a request for
  an unmapped host ending in \<^verbatim>\<open>ve.ai\<close>, and one for the platform's domain, without any
  entry written to the cache and without a not-configured response.
\<close>

theorem unmapped_host_not_always_cached:
  "handler_domain_mapper_edge empty_store (Some (with_host gallery_request ''unknown.example.com''))
     = (Respond (createNotFoundResponse ''unknown.example.com''), [''unknown.example.com''])
   \<and> handler_index empty_cache empty_store 1000 1020
       (Some (with_host gallery_request ''nobody.ve.ai''))
     = (Forward (set_origin_index (with_host gallery_request ''nobody.ve.ai'') ''nobody''),
        empty_cache, [])
   \<and> handler_index empty_cache empty_store 1000 1020
       (Some (with_host gallery_request ''master.d1ul468muq9dvs.amplifyapp.com''))
     = (Forward (with_host gallery_request ''master.d1ul468muq9dvs.amplifyapp.com''),
        empty_cache, [])"
proof -
  have edge: "handler_domain_mapper_edge empty_store
      (Some (with_host gallery_request ''unknown.example.com''))
     = (Respond (createNotFoundResponse ''unknown.example.com''), [''unknown.example.com''])"
    using unknown_host unknown_host_plain
    by (simp add: handler_domain_mapper_edge_def empty_store_def no_active_mapping_def)
  have lower: "toLowerCase ''nobody.ve.ai'' = ''nobody.ve.ai''"
    by code_simp
  have host: "normalized_host (with_host gallery_request ''nobody.ve.ai'') = Some ''nobody.ve.ai''"
    using with_host_normalized [of "''nobody.ve.ai''" gallery_request] lower by simp
  have index: "handler_index empty_cache empty_store 1000 1020
       (Some (with_host gallery_request ''nobody.ve.ai''))
     = (Forward (set_origin_index (with_host gallery_request ''nobody.ve.ai'') ''nobody''),
        empty_cache, [])"
    using host by (simp add: handler_index_def endsWith_def at_index_def template_def)
  have lower': "toLowerCase ''master.d1ul468muq9dvs.amplifyapp.com''
      = ''master.d1ul468muq9dvs.amplifyapp.com''"
    by code_simp
  have host': "normalized_host (with_host gallery_request ''master.d1ul468muq9dvs.amplifyapp.com'')
      = Some ''master.d1ul468muq9dvs.amplifyapp.com''"
    using with_host_normalized [of "''master.d1ul468muq9dvs.amplifyapp.com''" gallery_request]
      lower' by simp
  have platform: "handler_index empty_cache empty_store 1000 1020
       (Some (with_host gallery_request ''master.d1ul468muq9dvs.amplifyapp.com''))
     = (Forward (with_host gallery_request ''master.d1ul468muq9dvs.amplifyapp.com''),
        empty_cache, [])"
    using host' by (simp add: handler_index_def)
  show ?thesis
    using edge index platform by simp
qed

section \<open>Pieces of a split string\<close>

lemma split_str_not_empty: "split_str sep s \<noteq> []"
  by (induction s) (auto split: list.splits)

lemma split_str_without_separator: "sep \<notin> set s \<Longrightarrow> split_str sep s = [s]"
  by (induction s) auto

lemma split_str_first_piece:
  "at_index (split_str sep s) 0 = Some (takeWhile (\<lambda>c. c \<noteq> sep) s)"
proof (induction s)
  case Nil
  show ?case by (simp add: at_index_def)
next
  case (Cons c s)
  then show ?case
    using split_str_not_empty [of sep s]
    by (cases "split_str sep s") (auto simp: at_index_def)
qed

lemma split_str_after_prefix:
  "sep \<notin> set p \<Longrightarrow> split_str sep (p @ sep # rest) = p # split_str sep rest"
  by (induction p) auto

lemma workspaceNumber_without_hyphen:
  "CHR ''-'' \<notin> set w \<Longrightarrow> template (at_index (split_str CHR ''-'' w) 1) = ''undefined''"
  by (simp add: split_str_without_separator at_index_def template_def)

lemma workspaceNumber_with_hyphen:
  assumes "CHR ''-'' \<notin> set p"
  shows "template (at_index (split_str CHR ''-'' (p @ CHR ''-'' # rest)) 1)
           = takeWhile (\<lambda>c. c \<noteq> CHR ''-'') rest"
proof -
  have "at_index (split_str CHR ''-'' (p @ CHR ''-'' # rest)) 1
      = at_index (split_str CHR ''-'' rest) 0"
    using split_str_not_empty [of "CHR ''-''" rest]
    by (simp add: split_str_after_prefix [OF assms] at_index_def)
  then show ?thesis
    by (simp add: split_str_first_piece template_def)
qed

section \<open>The rewritten path\<close>

lemma handler_domain_mapper_edge_found:
  assumes "normalized_host request = Some host" "\<not> includes_str host ''amplifyapp.com''"
    "active_mapping dynamoDB host w"
  shows "handler_domain_mapper_edge dynamoDB (Some request)
     = (Forward (request\<lparr>
          uri := transformedUri_edge request w,
          headers := (headers request)
            (''x-custom-host'' \<mapsto> [\<lparr>hdr_key = ''X-Custom-Host'', hdr_value = newDomain\<rparr>],
             ''x-debug-workspace'' \<mapsto> [\<lparr>hdr_key = ''X-Debug-Workspace'', hdr_value = w\<rparr>],
             ''x-debug-original-uri'' \<mapsto>
               [\<lparr>hdr_key = ''X-Debug-Original-Uri'', hdr_value = uri request\<rparr>])\<rparr>),
        [host])"
proof -
  from active_mapping_found [OF assms(3)] obtain i where
    "dynamoDB host = Returns (Some i)" "\<not> no_active_mapping (Some i)"
    "template (Option.bind (Some i) workspaceId_S) = w"
    by blast
  then show ?thesis
    using assms(1,2) by (simp add: handler_domain_mapper_edge_def Let_def)
qed

lemma handler_part_001_resolved:
  assumes "normalized_host request = Some host" "\<not> includes_str host ''amplifyapp.com''"
    "resolves_to cache dynamoDB now_read host w"
  shows "fst (handler_part_001 cache dynamoDB now_read now_write (Some request))
     = Forward (transformRequest request w)"
proof (cases "cache_hit cache host now_read")
  case None
  with assms(3) have "active_mapping dynamoDB host w"
    by (simp add: resolves_to_def)
  from active_mapping_found [OF this] obtain i where
    "dynamoDB host = Returns (Some i)" "\<not> no_active_mapping (Some i)"
    "template (Option.bind (Some i) workspaceId_S) = w"
    by blast
  then show ?thesis
    using assms(1,2) None by (simp add: handler_part_001_def)
next
  case (Some entry)
  with assms(3) have "workspaceId entry = Some w" "w \<noteq> []"
    by (simp_all add: resolves_to_def)
  then show ?thesis
    using assms(1,2) Some by (simp add: handler_part_001_def truthy_def template_def)
qed

lemma normalized_host_uri_update: "normalized_host (request\<lparr>uri := u\<rparr>) = normalized_host request"
  by (simp add: normalized_host_def)

lemma gallery_store_resolves:
  "w \<noteq> [] \<Longrightarrow> resolves_to empty_cache (gallery_store w) now ''gallery.example.com'' w"
  by (simp add: resolves_to_def empty_cache_miss gallery_store_active)

text \<open>
  C1, as amended. Let \<open>p\<close> be the request path with a leading separator put in front if it
  has none (\<open>p\<close> is the path itself when it begins with the separator), for a host outside
  the platform's domain that resolves to the workspace \<open>w\<close>.
  The cached resolver of \<^verbatim>\<open>src/unnamed/part_001\<close> (\<^verbatim>\<open>transformRequest\<close>) forwards the
  path \<^verbatim>\<open>/w/\<close> when \<open>p\<close> is the root path and \<^verbatim>\<open>/w\<close> followed by \<open>p\<close> otherwise; it
  has no test for a path that already begins with a workspace segment.
  The resolver of \<^verbatim>\<open>domain-mapper-edge\<close> forwards \<open>p\<close> itself when \<open>p\<close> begins with
  \<^verbatim>\<open>/workspace-\<close> and a digit; otherwise it forwards \<^verbatim>\<open>/workspace-N\<close> when \<open>p\<close> is the
  root path (no separator after the segment) and \<^verbatim>\<open>/workspace-N\<close> followed by \<open>p\<close> for
  any other \<open>p\<close>, where \<open>N\<close> is \<^verbatim>\<open>w.split('-')[1]\<close>; the segment \<^verbatim>\<open>workspace-N\<close> is \<open>w\<close>
  itself when \<open>w\<close> is \<^verbatim>\<open>workspace-\<close> followed by a text without hyphen.
\<close>

theorem path_rewrite_by_resolver:
  assumes host: "normalized_host request = Some host"
    and plain: "\<not> includes_str host ''amplifyapp.com''"
  shows "(resolves_to cache dynamoDB now_read host w \<longrightarrow>
            forwarded_uri (fst (handler_part_001 cache dynamoDB now_read now_write (Some request)))
              = Some (if requestUri request = ''/'' then ''/'' @ w @ ''/''
                      else ''/'' @ w @ requestUri request))
       \<and> (active_mapping dynamoDB host w \<longrightarrow>
            forwarded_uri (fst (handler_domain_mapper_edge dynamoDB (Some request)))
              = Some (if workspaceMatch (requestUri request) then requestUri request
                      else if requestUri request = ''/''
                      then ''/workspace-'' @ template (at_index (split_str CHR ''-'' w) 1)
                      else ''/workspace-'' @ template (at_index (split_str CHR ''-'' w) 1)
                             @ requestUri request))
       \<and> (\<forall>n. w = ''workspace-'' @ n \<and> CHR ''-'' \<notin> set n \<longrightarrow>
            ''workspace-'' @ template (at_index (split_str CHR ''-'' w) 1) = w)
       \<and> (startsWith (uri request) ''/'' \<longrightarrow> requestUri request = uri request)"
proof -
  have cached: "forwarded_uri (fst (handler_part_001 cache dynamoDB now_read now_write (Some request)))
      = Some (if requestUri request = ''/'' then ''/'' @ w @ ''/''
              else ''/'' @ w @ requestUri request)"
    if "resolves_to cache dynamoDB now_read host w"
    using handler_part_001_resolved [OF host plain that, of now_write]
    by (simp add: forwarded_uri_def transformRequest_def)
  have edge: "forwarded_uri (fst (handler_domain_mapper_edge dynamoDB (Some request)))
      = Some (if workspaceMatch (requestUri request) then requestUri request
              else if requestUri request = ''/''
              then ''/workspace-'' @ template (at_index (split_str CHR ''-'' w) 1)
              else ''/workspace-'' @ template (at_index (split_str CHR ''-'' w) 1)
                     @ requestUri request)"
    if "active_mapping dynamoDB host w"
    using handler_domain_mapper_edge_found [OF host plain that]
    by (simp add: forwarded_uri_def transformedUri_edge_def)
  have scheme: "''workspace-'' @ template (at_index (split_str CHR ''-'' w) 1) = w"
    if "w = ''workspace-'' @ n" "CHR ''-'' \<notin> set n" for n
  proof -
    have "CHR ''-'' \<notin> set ''workspace''" by simp
    from workspaceNumber_with_hyphen [OF this, of n] that show ?thesis by auto
  qed
  have slash: "startsWith (uri request) ''/'' \<longrightarrow> requestUri request = uri request"
    by (simp add: requestUri_def)
  show ?thesis
    using cached edge scheme slash by blast
qed

theorem path_rewrite_by_resolver_witness:
  "forwarded_uri (fst (handler_part_001 empty_cache (gallery_store ''workspace-1'') 1000 1020
       (Some (gallery_request\<lparr>uri := ''/static/app.js''\<rparr>))))
     = Some ''/workspace-1/static/app.js''
   \<and> forwarded_uri (fst (handler_part_001 empty_cache (gallery_store ''workspace-1'') 1000 1020
       (Some (gallery_request\<lparr>uri := ''/''\<rparr>))))
     = Some ''/workspace-1/''
   \<and> forwarded_uri (fst (handler_domain_mapper_edge (gallery_store ''workspace-1'')
       (Some (gallery_request\<lparr>uri := ''/static/app.js''\<rparr>))))
     = Some ''/workspace-1/static/app.js''
   \<and> forwarded_uri (fst (handler_domain_mapper_edge (gallery_store ''workspace-1'')
       (Some (gallery_request\<lparr>uri := ''/workspace-7/photos''\<rparr>))))
     = Some ''/workspace-7/photos''"
proof -
  have host: "normalized_host (gallery_request\<lparr>uri := u\<rparr>) = Some ''gallery.example.com''" for u
    by (simp add: normalized_host_uri_update gallery_request_host)
  have resolved: "resolves_to empty_cache (gallery_store ''workspace-1'') 1000
      ''gallery.example.com'' ''workspace-1''"
    by (simp add: gallery_store_resolves)
  have active: "active_mapping (gallery_store ''workspace-1'') ''gallery.example.com''
      ''workspace-1''"
    by (simp add: gallery_store_active)
  have number: "template (at_index (split_str CHR ''-'' ''workspace-1'') 1) = ''1''"
    by (simp add: at_index_def template_def)
  show ?thesis
    using path_rewrite_by_resolver
        [where cache = empty_cache and dynamoDB = "gallery_store ''workspace-1''"
           and now_read = 1000 and now_write = 1020 and w = "''workspace-1''",
         OF host [of "''/static/app.js''"] gallery_host_plain(1)]
      path_rewrite_by_resolver
        [where cache = empty_cache and dynamoDB = "gallery_store ''workspace-1''"
           and now_read = 1000 and now_write = 1020 and w = "''workspace-1''",
         OF host [of "''/''"] gallery_host_plain(1)]
      path_rewrite_by_resolver
        [where cache = empty_cache and dynamoDB = "gallery_store ''workspace-1''"
           and now_read = 1000 and now_write = 1020 and w = "''workspace-1''",
         OF host [of "''/workspace-7/photos''"] gallery_host_plain(1)]
      resolved active number
    by (simp add: requestUri_def workspaceMatch_def is_digit_def)
qed

text \<open>
  C1 as stated fails in each resolver: for the root path and the workspace
  \<^verbatim>\<open>workspace-1\<close>, \<^verbatim>\<open>domain-mapper-edge\<close> forwards \<^verbatim>\<open>/workspace-1\<close> without a
  trailing separator; and the resolver of \<^verbatim>\<open>src/unnamed/part_001\<close> puts the workspace in
  front of a path that already begins with a workspace segment.
\<close>

theorem path_rewrite_differs_by_resolver:
  "forwarded_uri (fst (handler_domain_mapper_edge (gallery_store ''workspace-1'')
       (Some (gallery_request\<lparr>uri := ''/''\<rparr>))))
     = Some ''/workspace-1''
   \<and> forwarded_uri (fst (handler_part_001 empty_cache (gallery_store ''workspace-1'') 1000 1020
       (Some (gallery_request\<lparr>uri := ''/workspace-2/photos''\<rparr>))))
     = Some ''/workspace-1/workspace-2/photos''"
proof -
  have host: "normalized_host (gallery_request\<lparr>uri := u\<rparr>) = Some ''gallery.example.com''" for u
    by (simp add: normalized_host_uri_update gallery_request_host)
  have active: "active_mapping (gallery_store ''workspace-1'') ''gallery.example.com''
      ''workspace-1''"
    by (simp add: gallery_store_active)
  have edge: "forwarded_uri (fst (handler_domain_mapper_edge (gallery_store ''workspace-1'')
       (Some (gallery_request\<lparr>uri := ''/''\<rparr>)))) = Some ''/workspace-1''"
    using handler_domain_mapper_edge_found [OF host gallery_host_plain(1) active, of "''/''"]
    by (simp add: forwarded_uri_def transformedUri_edge_def requestUri_def workspaceMatch_def
        at_index_def template_def)
  have cached: "forwarded_uri (fst (handler_part_001 empty_cache (gallery_store ''workspace-1'')
       1000 1020 (Some (gallery_request\<lparr>uri := ''/workspace-2/photos''\<rparr>))))
     = Some ''/workspace-1/workspace-2/photos''"
    using handler_part_001_resolved
        [where request = "gallery_request\<lparr>uri := ''/workspace-2/photos''\<rparr>"
           and w = "''workspace-1''" and now_read = 1000 and now_write = 1020,
         OF host gallery_host_plain(1) gallery_store_resolves]
    by (simp add: forwarded_uri_def transformRequest_def requestUri_def)
  show ?thesis
    using edge cached by simp
qed

section \<open>A workspace identifier without a number\<close>




section \<open>Hosts ending in \<^verbatim>\<open>ve.ai\<close>\<close>

lemma workspace_1_ve_ai_host:
  "normalized_host (with_host gallery_request ''Workspace-1.VE.AI'') = Some ''workspace-1.ve.ai''"
proof -
  have "toLowerCase ''Workspace-1.VE.AI'' = ''workspace-1.ve.ai''" by code_simp
  then show ?thesis
    using with_host_normalized [of "''Workspace-1.VE.AI''" gallery_request] by simp
qed

text \<open>
  C10, as amended. For a host that, in lower case, ends with \<^verbatim>\<open>ve.ai\<close> and does not
  contain \<^verbatim>\<open>amplifyapp.com\<close>, the resolver of \<^verbatim>\<open>src/index.mjs\<close> takes the text before
  the first dot of the host as the workspace and transforms the request at once: the
  result is the same for every cache and every store (also one that is down), the cache is
  returned as it was and no key is read from the store.
\<close>

theorem ve_ai_host_bypasses_resolution:
  assumes host: "normalized_host request = Some host"
    and suffix: "endsWith host ''ve.ai''"
    and plain: "\<not> includes_str host ''amplifyapp.com''"
  shows "handler_index cache dynamoDB now_read now_write (Some request)
           = (Forward (set_origin_index request (takeWhile (\<lambda>c. c \<noteq> CHR ''.'') host)),
              cache, [])
       \<and> forwarded_uri (fst (handler_index cache dynamoDB now_read now_write (Some request)))
           = Some (''/'' @ takeWhile (\<lambda>c. c \<noteq> CHR ''.'') host @ uri request)"
  using assms
  by (simp add: handler_index_def split_str_first_piece template_def forwarded_uri_def
      set_origin_index_def)

theorem ve_ai_host_bypasses_resolution_witness:
  "handler_index empty_cache failing_store 1000 1020
       (Some (with_host gallery_request ''Workspace-1.VE.AI''))
     = (Forward (set_origin_index (with_host gallery_request ''Workspace-1.VE.AI'')
          ''workspace-1''), empty_cache, [])
   \<and> forwarded_uri (fst (handler_index empty_cache failing_store 1000 1020
       (Some (with_host gallery_request ''Workspace-1.VE.AI''))))
     = Some ''/workspace-1/dashboard''"
proof -
  have suffix: "endsWith ''workspace-1.ve.ai'' ''ve.ai''"
    by (simp add: endsWith_def)
  have plain: "\<not> includes_str ''workspace-1.ve.ai'' ''amplifyapp.com''"
    by simp
  have path: "uri (with_host gallery_request ''Workspace-1.VE.AI'') = ''/dashboard''"
    by (simp add: with_host_def gallery_request_def)
  show ?thesis
    using ve_ai_host_bypasses_resolution [OF workspace_1_ve_ai_host suffix plain,
        of empty_cache failing_store 1000 1020] path
    by (simp add: forwarded_uri_def set_origin_index_def)
qed

text \<open>
  C10 as stated fails for a host that ends with \<^verbatim>\<open>ve.ai\<close> and contains
  \<^verbatim>\<open>amplifyapp.com\<close>: the test for the platform's domain comes first (line 62) and the
  request is returned as it came, its path not rewritten.
\<close>

theorem platform_check_precedes_ve_ai_check:
  "endsWith (toLowerCase ''amplifyapp.com.ve.ai'') ''ve.ai''
   \<and> handler_index empty_cache (gallery_store ''workspace-1'') 1000 1020
       (Some (with_host gallery_request ''amplifyapp.com.ve.ai''))
     = (Forward (with_host gallery_request ''amplifyapp.com.ve.ai''), empty_cache, [])
   \<and> forwarded_uri (Forward (with_host gallery_request ''amplifyapp.com.ve.ai''))
     = Some ''/dashboard''"
proof -
  have lower: "toLowerCase ''amplifyapp.com.ve.ai'' = ''amplifyapp.com.ve.ai''"
    by code_simp
  have host: "normalized_host (with_host gallery_request ''amplifyapp.com.ve.ai'')
      = Some ''amplifyapp.com.ve.ai''"
    using with_host_normalized [of "''amplifyapp.com.ve.ai''" gallery_request] lower by simp
  have suffix: "endsWith ''amplifyapp.com.ve.ai'' ''ve.ai''"
    by (simp add: endsWith_def)
  have passed: "handler_index empty_cache (gallery_store ''workspace-1'') 1000 1020
       (Some (with_host gallery_request ''amplifyapp.com.ve.ai''))
     = (Forward (with_host gallery_request ''amplifyapp.com.ve.ai''), empty_cache, [])"
    using host by (simp add: handler_index_def)
  have path: "forwarded_uri (Forward (with_host gallery_request ''amplifyapp.com.ve.ai''))
     = Some ''/dashboard''"
    by (simp add: forwarded_uri_def with_host_def gallery_request_def)
  show ?thesis
    using lower suffix passed path by simp
qed

section \<open>The finalizers\<close>

lemma add_meta_debug_frame:
  "\<exists>d. add_meta_debug r = r\<lparr>headers := (headers r)(''x-amz-meta-debug'' := d)\<rparr>
       \<and> (\<not> endsWith (uri r) ''/'' \<and> \<not> endsWith (uri r) ''index.html''
            \<longrightarrow> d = headers r ''x-amz-meta-debug'')
       \<and> (endsWith (uri r) ''/'' \<or> endsWith (uri r) ''index.html'' \<longrightarrow> d \<noteq> None)"
proof (cases "endsWith (uri r) ''/'' \<or> endsWith (uri r) ''index.html''")
  case True
  then show ?thesis
    by (auto simp: add_meta_debug_def Let_def)
next
  case False
  then have "add_meta_debug r = r\<lparr>headers := (headers r)(''x-amz-meta-debug'' := headers r ''x-amz-meta-debug'')\<rparr>"
    by (simp add: add_meta_debug_def)
  with False show ?thesis by blast
qed

lemma gallery_request_fields:
  "uri gallery_request = ''/dashboard''"
  "headers gallery_request ''x-custom-host'' = None"
  "headers gallery_request ''x-amz-meta-debug'' = None"
  "headers gallery_request ''x-debug-workspace'' = None"
  "headers gallery_request ''x-debug-original-uri'' = None"
  "headers gallery_request ''x-debug-transformed-uri'' = None"
  by (simp_all add: gallery_request_def)

lemma with_carrier_fields:
  "uri (with_carrier request name) = uri request"
  "headers (with_carrier request name) ''x-custom-host''
     = Some [\<lparr>hdr_key = ''X-Custom-Host'', hdr_value = name\<rparr>]"
  "header_value (headers (with_carrier request name)) ''x-custom-host'' = Some name"
  "headers (with_carrier request name) ''x-amz-meta-debug'' = headers request ''x-amz-meta-debug''"
  "normalized_host (with_carrier request name) = normalized_host request"
  by (simp_all add: with_carrier_def header_value_def normalized_host_def)

lemma dashboard_is_no_index:
  "\<not> endsWith ''/dashboard'' ''/''" "\<not> endsWith ''/dashboard'' ''index.html''"
  by (simp_all add: endsWith_def)

text \<open>
  C3, as amended. The finalizer of \<^verbatim>\<open>origin-request-edge\<close>: when the first entry of the
  carrier header \<^verbatim>\<open>x-custom-host\<close> has a non-empty value, the forwarded request is the
  request with the host header set to that value and the carrier header deleted, every
  other field and header as it was; in every other case the request is forwarded
  unchanged. The finalizer of \<^verbatim>\<open>src/unnamed/part_000\<close>: when the carrier header has a
  first entry, the forwarded request has the host header set to its value and the carrier
  deleted; when the carrier header is absent, host and carrier are as they were; in both
  cases the path, the other fields and every header but \<^verbatim>\<open>x-amz-meta-debug\<close> are
  unchanged, and \<^verbatim>\<open>x-amz-meta-debug\<close> is unchanged for a path that ends neither in \<^verbatim>\<open>/\<close>
  nor in \<^verbatim>\<open>index.html\<close> and set otherwise.
\<close>

theorem finalizer_substitutes_and_deletes:
  "(\<forall>v. header_value (headers request) ''x-custom-host'' = Some v \<and> v \<noteq> [] \<longrightarrow>
       handler_origin_request_edge (Some request)
         = Forward (request\<lparr>headers :=
             (headers request)(''host'' \<mapsto> [\<lparr>hdr_key = ''Host'', hdr_value = v\<rparr>],
                               ''x-custom-host'' := None)\<rparr>))
   \<and> (\<not> truthy (header_value (headers request) ''x-custom-host'') \<longrightarrow>
       handler_origin_request_edge (Some request) = Forward request)
   \<and> (\<forall>h hs. headers request ''x-custom-host'' = Some (h # hs) \<longrightarrow>
       (\<exists>d. handler_part_000 (Some request)
              = Forward (request\<lparr>headers :=
                  (headers request)(''host'' \<mapsto> [\<lparr>hdr_key = ''Host'', hdr_value = hdr_value h\<rparr>],
                                    ''x-custom-host'' := None,
                                    ''x-amz-meta-debug'' := d)\<rparr>)
          \<and> (\<not> endsWith (uri request) ''/'' \<and> \<not> endsWith (uri request) ''index.html''
               \<longrightarrow> d = headers request ''x-amz-meta-debug'')
          \<and> (endsWith (uri request) ''/'' \<or> endsWith (uri request) ''index.html''
               \<longrightarrow> d \<noteq> None)))
   \<and> (headers request ''x-custom-host'' = None \<longrightarrow>
       (\<exists>d. handler_part_000 (Some request)
              = Forward (request\<lparr>headers := (headers request)(''x-amz-meta-debug'' := d)\<rparr>)
          \<and> (\<not> endsWith (uri request) ''/'' \<and> \<not> endsWith (uri request) ''index.html''
               \<longrightarrow> d = headers request ''x-amz-meta-debug'')
          \<and> (endsWith (uri request) ''/'' \<or> endsWith (uri request) ''index.html''
               \<longrightarrow> d \<noteq> None)))"
proof -
  have edge_present: "handler_origin_request_edge (Some request)
         = Forward (request\<lparr>headers :=
             (headers request)(''host'' \<mapsto> [\<lparr>hdr_key = ''Host'', hdr_value = v\<rparr>],
                               ''x-custom-host'' := None)\<rparr>)"
    if "header_value (headers request) ''x-custom-host'' = Some v" "v \<noteq> []" for v
    using that by (simp add: handler_origin_request_edge_def truthy_def template_def)
  have edge_absent: "\<not> truthy (header_value (headers request) ''x-custom-host'') \<longrightarrow>
       handler_origin_request_edge (Some request) = Forward request"
    by (simp add: handler_origin_request_edge_def)
  have part_present: "\<exists>d. handler_part_000 (Some request)
              = Forward (request\<lparr>headers :=
                  (headers request)(''host'' \<mapsto> [\<lparr>hdr_key = ''Host'', hdr_value = hdr_value h\<rparr>],
                                    ''x-custom-host'' := None,
                                    ''x-amz-meta-debug'' := d)\<rparr>)
          \<and> (\<not> endsWith (uri request) ''/'' \<and> \<not> endsWith (uri request) ''index.html''
               \<longrightarrow> d = headers request ''x-amz-meta-debug'')
          \<and> (endsWith (uri request) ''/'' \<or> endsWith (uri request) ''index.html''
               \<longrightarrow> d \<noteq> None)"
    if "headers request ''x-custom-host'' = Some (h # hs)" for h hs
    using that
      add_meta_debug_frame [of "request\<lparr>headers :=
        (headers request)(''host'' \<mapsto> [\<lparr>hdr_key = ''Host'', hdr_value = hdr_value h\<rparr>],
                          ''x-custom-host'' := None)\<rparr>"]
    by (simp add: handler_part_000_def)
  have part_absent: "\<exists>d. handler_part_000 (Some request)
              = Forward (request\<lparr>headers := (headers request)(''x-amz-meta-debug'' := d)\<rparr>)
          \<and> (\<not> endsWith (uri request) ''/'' \<and> \<not> endsWith (uri request) ''index.html''
               \<longrightarrow> d = headers request ''x-amz-meta-debug'')
          \<and> (endsWith (uri request) ''/'' \<or> endsWith (uri request) ''index.html''
               \<longrightarrow> d \<noteq> None)"
    if "headers request ''x-custom-host'' = None"
    using that add_meta_debug_frame [of request]
    by (simp add: handler_part_000_def)
  show ?thesis
    using edge_present edge_absent part_present part_absent by blast
qed

theorem finalizer_substitutes_and_deletes_witness:
  "forwarded_header (handler_origin_request_edge
       (Some (with_carrier gallery_request ''master.d1ul468muq9dvs.amplifyapp.com''))) ''host''
     = Some [\<lparr>hdr_key = ''Host'', hdr_value = ''master.d1ul468muq9dvs.amplifyapp.com''\<rparr>]
   \<and> forwarded_header (handler_origin_request_edge
       (Some (with_carrier gallery_request ''master.d1ul468muq9dvs.amplifyapp.com'')))
       ''x-custom-host'' = None
   \<and> handler_origin_request_edge (Some gallery_request) = Forward gallery_request
   \<and> handler_part_000 (Some (with_carrier gallery_request ''master.d1ul468muq9dvs.amplifyapp.com''))
     = handler_origin_request_edge
         (Some (with_carrier gallery_request ''master.d1ul468muq9dvs.amplifyapp.com''))
   \<and> handler_part_000 (Some gallery_request) = Forward gallery_request"
proof -
  let ?r = "with_carrier gallery_request ''master.d1ul468muq9dvs.amplifyapp.com''"
  note thm1 = finalizer_substitutes_and_deletes [of ?r]
  note thm2 = finalizer_substitutes_and_deletes [of gallery_request]
  have absent: "\<not> truthy (header_value (headers gallery_request) ''x-custom-host'')"
    by (simp add: header_value_def gallery_request_fields truthy_def)
  have edge1: "handler_origin_request_edge (Some ?r)
      = Forward (?r\<lparr>headers := (headers ?r)
          (''host'' \<mapsto> [\<lparr>hdr_key = ''Host'', hdr_value = ''master.d1ul468muq9dvs.amplifyapp.com''\<rparr>],
           ''x-custom-host'' := None)\<rparr>)"
    using thm1 with_carrier_fields(3) [of gallery_request "''master.d1ul468muq9dvs.amplifyapp.com''"]
    by simp
  have edge2: "handler_origin_request_edge (Some gallery_request) = Forward gallery_request"
    using thm2 absent by blast
  have part1: "handler_part_000 (Some ?r)
      = Forward (?r\<lparr>headers := (headers ?r)
          (''host'' \<mapsto> [\<lparr>hdr_key = ''Host'', hdr_value = ''master.d1ul468muq9dvs.amplifyapp.com''\<rparr>],
           ''x-custom-host'' := None)\<rparr>)"
  proof -
    from thm1 with_carrier_fields(2) [of gallery_request "''master.d1ul468muq9dvs.amplifyapp.com''"]
    obtain d where d: "handler_part_000 (Some ?r)
        = Forward (?r\<lparr>headers := (headers ?r)
            (''host'' \<mapsto> [\<lparr>hdr_key = ''Host'', hdr_value = ''master.d1ul468muq9dvs.amplifyapp.com''\<rparr>],
             ''x-custom-host'' := None, ''x-amz-meta-debug'' := d)\<rparr>)"
      "\<not> endsWith (uri ?r) ''/'' \<and> \<not> endsWith (uri ?r) ''index.html''
         \<longrightarrow> d = headers ?r ''x-amz-meta-debug''"
      by auto
    from d(2) have "d = None"
      by (simp add: with_carrier_fields gallery_request_fields dashboard_is_no_index)
    with d(1) show ?thesis
      by (simp add: with_carrier_fields gallery_request_fields fun_upd_idem)
  qed
  have part2: "handler_part_000 (Some gallery_request) = Forward gallery_request"
  proof -
    from thm2 gallery_request_fields(2)
    obtain d where d: "handler_part_000 (Some gallery_request)
        = Forward (gallery_request\<lparr>headers := (headers gallery_request)(''x-amz-meta-debug'' := d)\<rparr>)"
      "\<not> endsWith (uri gallery_request) ''/'' \<and> \<not> endsWith (uri gallery_request) ''index.html''
         \<longrightarrow> d = headers gallery_request ''x-amz-meta-debug''"
      by auto
    from d(2) have "d = None"
      by (simp add: gallery_request_fields dashboard_is_no_index)
    with d(1) show ?thesis
      by (simp add: gallery_request_fields fun_upd_idem)
  qed
  show ?thesis
    using edge1 edge2 part1 part2 by (simp add: forwarded_header_def)
qed

text \<open>
  C3 as stated fails in each finalizer. The one of \<^verbatim>\<open>src/unnamed/part_000\<close> adds the
  header \<^verbatim>\<open>x-amz-meta-debug\<close> to a request for the root path that carries no carrier
  header, so that request is not forwarded unchanged. The one of
  \<^verbatim>\<open>origin-request-edge\<close> forwards a request whose carrier header is present with an
  empty value as it came, carrier included.
\<close>

theorem finalizers_do_more_or_less:
  "forwarded_header (handler_part_000 (Some (gallery_request\<lparr>uri := ''/''\<rparr>))) ''x-amz-meta-debug''
     = Some [\<lparr>hdr_key = ''X-Amz-Meta-Debug'', hdr_value = ''{}''\<rparr>]
   \<and> headers (gallery_request\<lparr>uri := ''/''\<rparr>) ''x-amz-meta-debug'' = None
   \<and> headers (gallery_request\<lparr>uri := ''/''\<rparr>) ''x-custom-host'' = None
   \<and> handler_origin_request_edge (Some (with_carrier gallery_request []))
     = Forward (with_carrier gallery_request [])
   \<and> headers (with_carrier gallery_request []) ''x-custom-host''
     = Some [\<lparr>hdr_key = ''X-Custom-Host'', hdr_value = []\<rparr>]"
  by (simp add: handler_part_000_def add_meta_debug_def forwarded_header_def gallery_request_fields
      endsWith_def header_value_def JSON_stringify_def handler_origin_request_edge_def
      with_carrier_fields truthy_def)

section \<open>The carrier header across the two stages\<close>

lemma handler_domain_mapper_edge_forwards:
  assumes "normalized_host request = Some host" "\<not> includes_str host ''amplifyapp.com''"
    "handler_domain_mapper_edge dynamoDB (Some request) = (Forward r, reads)"
  shows "header_value (headers r) ''x-custom-host'' = Some newDomain
       \<and> headers r ''x-custom-host'' = Some [\<lparr>hdr_key = ''X-Custom-Host'', hdr_value = newDomain\<rparr>]"
  using assms
  by (auto simp: handler_domain_mapper_edge_def Let_def header_value_def
           split: getItem_result.splits if_splits)

lemma newDomain_not_empty: "newDomain \<noteq> []"
  by (simp add: newDomain_def)

text \<open>
  C4, as amended. For a host outside the platform's domain, every request that
  \<^verbatim>\<open>domain-mapper-edge\<close> forwards carries the carrier header \<^verbatim>\<open>x-custom-host\<close> with the
  single fixed value \<^verbatim>\<open>master.d1ul468muq9dvs.amplifyapp.com\<close>, whatever the inbound
  request held under that name, and the finalizer of \<^verbatim>\<open>origin-request-edge\<close> then sets
  the host header to that fixed value and deletes the carrier. For a host of the platform's
  domain the resolver returns the request as it came, an inbound carrier header included,
  and the finalizer works on that inbound request.
\<close>

theorem carrier_overwritten_when_mapped:
  assumes host: "normalized_host request = Some host"
  shows "(\<not> includes_str host ''amplifyapp.com'' \<longrightarrow>
           (\<forall>r reads. handler_domain_mapper_edge dynamoDB (Some request) = (Forward r, reads) \<longrightarrow>
              headers r ''x-custom-host''
                = Some [\<lparr>hdr_key = ''X-Custom-Host'', hdr_value = newDomain\<rparr>]
            \<and> viewer_then_origin dynamoDB (Some request)
                = Forward (r\<lparr>headers :=
                    (headers r)(''host'' \<mapsto> [\<lparr>hdr_key = ''Host'', hdr_value = newDomain\<rparr>],
                                ''x-custom-host'' := None)\<rparr>)))
       \<and> (includes_str host ''amplifyapp.com'' \<longrightarrow>
            handler_domain_mapper_edge dynamoDB (Some request) = (Forward request, [])
          \<and> viewer_then_origin dynamoDB (Some request)
              = handler_origin_request_edge (Some request))"
proof -
  have mapped: "headers r ''x-custom-host''
                = Some [\<lparr>hdr_key = ''X-Custom-Host'', hdr_value = newDomain\<rparr>]
            \<and> viewer_then_origin dynamoDB (Some request)
                = Forward (r\<lparr>headers :=
                    (headers r)(''host'' \<mapsto> [\<lparr>hdr_key = ''Host'', hdr_value = newDomain\<rparr>],
                                ''x-custom-host'' := None)\<rparr>)"
    if plain: "\<not> includes_str host ''amplifyapp.com''"
      and forwards: "handler_domain_mapper_edge dynamoDB (Some request) = (Forward r, reads)"
    for r reads
  proof -
    note carrier = handler_domain_mapper_edge_forwards [OF host plain forwards]
    have "handler_origin_request_edge (Some r)
        = Forward (r\<lparr>headers :=
            (headers r)(''host'' \<mapsto> [\<lparr>hdr_key = ''Host'', hdr_value = newDomain\<rparr>],
                        ''x-custom-host'' := None)\<rparr>)"
      using carrier newDomain_not_empty
      by (simp add: handler_origin_request_edge_def truthy_def template_def)
    then show ?thesis
      using carrier forwards by (simp add: viewer_then_origin_def)
  qed
  have passed: "handler_domain_mapper_edge dynamoDB (Some request) = (Forward request, [])
          \<and> viewer_then_origin dynamoDB (Some request)
              = handler_origin_request_edge (Some request)"
    if "includes_str host ''amplifyapp.com''"
    using host that by (simp add: handler_domain_mapper_edge_def viewer_then_origin_def)
  show ?thesis
    using mapped passed by blast
qed

theorem carrier_overwritten_when_mapped_witness:
  "forwarded_header (fst (handler_domain_mapper_edge (gallery_store ''workspace-1'')
       (Some (with_carrier gallery_request ''evil.example.net'')))) ''x-custom-host''
     = Some [\<lparr>hdr_key = ''X-Custom-Host'', hdr_value = ''master.d1ul468muq9dvs.amplifyapp.com''\<rparr>]
   \<and> forwarded_header (viewer_then_origin (gallery_store ''workspace-1'')
       (Some (with_carrier gallery_request ''evil.example.net''))) ''host''
     = Some [\<lparr>hdr_key = ''Host'', hdr_value = ''master.d1ul468muq9dvs.amplifyapp.com''\<rparr>]
   \<and> forwarded_header (viewer_then_origin (gallery_store ''workspace-1'')
       (Some (with_carrier gallery_request ''evil.example.net''))) ''x-custom-host''
     = None"
proof -
  let ?request = "with_carrier gallery_request ''evil.example.net''"
  have host: "normalized_host ?request = Some ''gallery.example.com''"
    by (simp add: with_carrier_fields gallery_request_host)
  have active: "active_mapping (gallery_store ''workspace-1'') ''gallery.example.com''
      ''workspace-1''"
    by (simp add: gallery_store_active)
  note forwards = handler_domain_mapper_edge_found [OF host gallery_host_plain(1) active]
  show ?thesis
    using carrier_overwritten_when_mapped [OF host, of "gallery_store ''workspace-1''"]
      gallery_host_plain(1) forwards
    by (simp add: forwarded_header_def newDomain_def)
qed

text \<open>
  C4 as stated fails on the pass-through: a client that addresses the platform's domain
  and sends \<^verbatim>\<open>x-custom-host: evil.example.net\<close> gets its request through the resolver
  untouched, and the finalizer makes \<^verbatim>\<open>evil.example.net\<close> the host header sent to the
  origin.
\<close>

theorem platform_domain_keeps_inbound_carrier:
  "handler_domain_mapper_edge (gallery_store ''workspace-1'')
       (Some (with_carrier (with_host gallery_request ''app.amplifyapp.com'') ''evil.example.net''))
     = (Forward (with_carrier (with_host gallery_request ''app.amplifyapp.com'')
          ''evil.example.net''), [])
   \<and> forwarded_header (viewer_then_origin (gallery_store ''workspace-1'')
       (Some (with_carrier (with_host gallery_request ''app.amplifyapp.com'')
          ''evil.example.net''))) ''host''
     = Some [\<lparr>hdr_key = ''Host'', hdr_value = ''evil.example.net''\<rparr>]"
proof -
  let ?request = "with_carrier (with_host gallery_request ''app.amplifyapp.com'') ''evil.example.net''"
  have lower: "toLowerCase ''app.amplifyapp.com'' = ''app.amplifyapp.com''"
    by code_simp
  have host: "normalized_host ?request = Some ''app.amplifyapp.com''"
    using with_host_normalized [of "''app.amplifyapp.com''" gallery_request] lower
    by (simp add: with_carrier_fields)
  have passed: "handler_domain_mapper_edge (gallery_store ''workspace-1'') (Some ?request)
      = (Forward ?request, [])"
    using host by (simp add: handler_domain_mapper_edge_def)
  have final: "handler_origin_request_edge (Some ?request)
      = Forward (?request\<lparr>headers := (headers ?request)
          (''host'' \<mapsto> [\<lparr>hdr_key = ''Host'', hdr_value = ''evil.example.net''\<rparr>],
           ''x-custom-host'' := None)\<rparr>)"
    by (simp add: handler_origin_request_edge_def with_carrier_fields truthy_def template_def)
  show ?thesis
    using passed final by (simp add: viewer_then_origin_def forwarded_header_def)
qed

end
